theory Spec2Isabelle
  imports Main
begin

section \<open>The relay of src/app.js\<close>

text \<open>
  The program is one module with six global variables and a handful of callbacks: the
  handlers of the backend socket (\<open>open\<close>, \<open>message\<close>, \<open>error\<close>, \<open>close\<close>), the
  reconnect timer, and the helpers that write to the chat platform. The model keeps the
  globals in a record and turns every callback into a function from the state before to
  the state after.

  The handlers that write to the platform are given twice. First as one step, with the
  platform as a parameter: what a handler does from its first line to its last when
  nothing else happens while it waits for the platform. There the calls, waits, timers and
  sockets are appended to \<open>effects\<close>, each call with its answer, and \<open>run\<close> takes an
  event when the handler before it has returned. This serves the statements about one
  frame and about the connection events, whose handlers do not wait. Then with their
  awaits: a handler runs up to its next \<open>await\<close>, frames that arrive meanwhile are
  handled first, and the answer of the platform is an event of its own. This serves the
  statements about a stream of frames.

  What a handler prints goes to \<open>console\<close>. Texts are \<open>string\<close>; one \<open>char\<close> stands
  for one code unit of the JavaScript string.
\<close>

subsection \<open>Data\<close>

datatype ready_state = CONNECTING | OPEN | CLOSING | CLOSED

text \<open>
  The object \<open>say\<close> returns for the placeholder. \<open>handleChatResponse\<close> writes its
  \<open>text\<close> property, here \<open>msg_text\<close>.
\<close>

record slack_message =
  channel :: string
  ts :: string
  msg_text :: string

text \<open>
  Values produced by \<open>JSON.parse\<close>. An object lists each of its properties once. The
  program never computes with a number: it tests one for truth or prints it. A number is
  therefore kept as the text JavaScript prints for it, which is \<open>0\<close> for zero alone.
\<close>

datatype json =
    JNull
  | JBool bool
  | JNum string
  | JStr string
  | JArr "json list"
  | JObj "(string \<times> json) list"

text \<open>
  The two platform operations the relay uses, with the arguments it passes: channel, message
  id (\<open>ts\<close> or \<open>thread_ts\<close>) and text; \<open>None\<close> is \<open>undefined\<close>.
\<close>

datatype api_call =
    ChatUpdate string string "string option"
  | ChatPostMessage string string "string option"

text \<open>
  How a platform call ends: it resolves with a result whose \<open>ok\<close> flag is given, or it
  rejects with an error of which the relay reads \<open>code\<close> and \<open>parseInt(retryAfter)\<close>
  (\<open>None\<close> when that is \<open>NaN\<close>).
\<close>

datatype api_result =
    Resolved bool
  | Rejected string "int option"

datatype effect =
    Call api_call api_result
  | Sleep int
  | SetTimeout int
  | NewSocket
  | WsSend json

record state =
  ws :: "ready_state option"
  reconnectAttempts :: nat
  currentMessage :: "slack_message option"
  messageContent :: string
  lastUpdateTime :: int
  isStreaming :: bool
  api_calls :: nat
  effects :: "effect list"
  console :: "string list"

definition MAX_RECONNECT_ATTEMPTS :: nat where
  "MAX_RECONNECT_ATTEMPTS = 5"

definition RECONNECT_DELAY :: int where
  "RECONNECT_DELAY = 1000"

definition updateInterval :: int where
  "updateInterval = 500"

definition MAX_LENGTH :: nat where
  "MAX_LENGTH = 3000"

text \<open>The globals as the module initialises them.\<close>

definition initial :: state where
  "initial = \<lparr> ws = None, reconnectAttempts = 0, currentMessage = None, messageContent = [],
     lastUpdateTime = 0, isStreaming = False, api_calls = 0, effects = [], console = [] \<rparr>"

definition console_log :: "string \<Rightarrow> state \<Rightarrow> state" where
  "console_log line s = s\<lparr>console := console s @ [line]\<rparr>"

definition emit :: "effect \<Rightarrow> state \<Rightarrow> state" where
  "emit e s = s\<lparr>effects := effects s @ [e]\<rparr>"

subsection \<open>Text helpers\<close>

fun string_of_nat :: "nat \<Rightarrow> string" where
  "string_of_nat n =
     (if n < 10 then [char_of (48 + n)]
      else string_of_nat (n div 10) @ [char_of (48 + n mod 10)])"

declare string_of_nat.simps [simp del]

text \<open>\<open>Array.prototype.join\<close> with a separator.\<close>

fun join :: "string \<Rightarrow> string list \<Rightarrow> string" where
  "join sep [] = []"
| "join sep [x] = x"
| "join sep (x # y # ys) = x @ sep @ join sep (y # ys)"

text \<open>
  JavaScript's conversion of a value to a string, as \<open>+=\<close> and a template literal apply it.
  An array joins its elements with commas, \<open>null\<close> elements giving the empty string.
\<close>

fun to_string :: "json \<Rightarrow> string" where
  "to_string JNull = ''null''"
| "to_string (JBool b) = (if b then ''true'' else ''false'')"
| "to_string (JNum n) = n"
| "to_string (JStr s) = s"
| "to_string (JArr xs) = join '','' (map (\<lambda>x. if x = JNull then [] else to_string x) xs)"
| "to_string (JObj kvs) = ''[object Object]''"

definition to_string_opt :: "json option \<Rightarrow> string" where
  "to_string_opt v = (case v of None \<Rightarrow> ''undefined'' | Some x \<Rightarrow> to_string x)"

text \<open>\<open>String.prototype.includes\<close>: the needle occurs somewhere in the text.\<close>

fun is_prefix :: "string \<Rightarrow> string \<Rightarrow> bool" where
  "is_prefix [] ys = True"
| "is_prefix (x # xs) [] = False"
| "is_prefix (x # xs) (y # ys) = (x = y \<and> is_prefix xs ys)"

fun str_includes :: "string \<Rightarrow> string \<Rightarrow> bool" where
  "str_includes [] needle = (needle = [])"
| "str_includes (c # cs) needle = (is_prefix needle (c # cs) \<or> str_includes cs needle)"

text \<open>
  \<open>String.prototype.trim\<close>: the white space and line terminators among the code units
  below 256 are tab, line feed, vertical tab, form feed, carriage return, space and the
  no-break space.
\<close>

definition is_space :: "char \<Rightarrow> bool" where
  "is_space c = (c = CHR 0x09 \<or> c = CHR 0x0A \<or> c = CHR 0x0B \<or> c = CHR 0x0C \<or> c = CHR 0x0D
     \<or> c = CHR 0x20 \<or> c = CHR 0xA0)"

definition trim :: "string \<Rightarrow> string" where
  "trim s = rev (dropWhile is_space (rev (dropWhile is_space s)))"

text \<open>\<open>content.split('\n')\<close>: the empty text has one (empty) line.\<close>

fun split_lines :: "string \<Rightarrow> string list" where
  "split_lines [] = [[]]"
| "split_lines (c # cs) =
     (if c = CHR 0x0A then [] # split_lines cs
      else (case split_lines cs of [] \<Rightarrow> [[c]] | l # ls \<Rightarrow> (c # l) # ls))"

subsection \<open>Reading a decoded frame\<close>

text \<open>
  \<open>jsonMessage.content\<close>, \<open>.type\<close> and \<open>.error\<close> on a value other than \<open>null\<close>: an
  object gives the property or \<open>undefined\<close> (\<open>None\<close>); a string, number, boolean or
  array has no property of these names.
\<close>

definition field :: "json \<Rightarrow> string \<Rightarrow> json option" where
  "field v k = (case v of JObj kvs \<Rightarrow> map_of kvs k | _ \<Rightarrow> None)"

definition marker :: string where
  "marker = ''Connected to ANA Multi-Agent''"

text \<open>
  \<open>jsonMessage.content?.includes(marker)\<close>. The optional chain stops at \<open>undefined\<close> and
  \<open>null\<close>; a string searches for the substring, an array for an element equal to the
  marker; any other value has no \<open>includes\<close> and the call throws (\<open>None\<close>).
\<close>

definition content_includes_marker :: "json option \<Rightarrow> bool option" where
  "content_includes_marker v =
     (case v of
        None \<Rightarrow> Some False
      | Some JNull \<Rightarrow> Some False
      | Some (JStr c) \<Rightarrow> Some (str_includes c marker)
      | Some (JArr xs) \<Rightarrow> Some (JStr marker \<in> set xs)
      | Some _ \<Rightarrow> None)"

text \<open>The truth value JavaScript gives a property in a condition.\<close>

definition truthy :: "json option \<Rightarrow> bool" where
  "truthy v =
     (case v of
        None \<Rightarrow> False
      | Some JNull \<Rightarrow> False
      | Some (JBool b) \<Rightarrow> b
      | Some (JNum n) \<Rightarrow> n \<noteq> ''0''
      | Some (JStr c) \<Rightarrow> c \<noteq> []
      | Some _ \<Rightarrow> True)"

subsection \<open>Writing to the platform\<close>

text \<open>
  The platform is a parameter \<open>P\<close>: \<open>P n\<close> is how the \<open>n\<close>-th call of the run ends. A call
  is recorded with its outcome.
\<close>

definition api :: "(nat \<Rightarrow> api_result) \<Rightarrow> api_call \<Rightarrow> state \<Rightarrow> api_result \<times> state" where
  "api P c s =
     (let r = P (api_calls s)
      in (r, (emit (Call c r) s)\<lparr>api_calls := api_calls s + 1\<rparr>))"

definition is_rate_limited :: "api_result \<Rightarrow> bool" where
  "is_rate_limited r = (case r of Rejected code ra \<Rightarrow> code = ''rate_limited'' | Resolved ok \<Rightarrow> False)"

definition is_rejected :: "api_result \<Rightarrow> bool" where
  "is_rejected r = (case r of Rejected code ra \<Rightarrow> True | Resolved ok \<Rightarrow> False)"

text \<open>\<open>parseInt(error.retryAfter) || 1\<close>: \<open>NaN\<close> and 0 give 1.\<close>

definition retry_after :: "api_result \<Rightarrow> int" where
  "retry_after r =
     (case r of
        Rejected code (Some n) \<Rightarrow> (if n = 0 then 1 else n)
      | _ \<Rightarrow> 1)"

text \<open>
  The texts of the source start with two characters, U+00E2 and U+0152, of which the
  second has no \<open>char\<close>; they are kept as the four bytes the source file has for them.
  Nothing in the program measures or searches these texts.
\<close>

definition cross_mark :: string where
  "cross_mark = [CHR 0xC3, CHR 0xA2, CHR 0xC5, CHR 0x92]"

definition handleErrorMessage ::
  "(nat \<Rightarrow> api_result) \<Rightarrow> json \<Rightarrow> slack_message option \<Rightarrow> state \<Rightarrow> state" where
  "handleErrorMessage P jsonMessage cm s =
     (case cm of
        None \<Rightarrow> console_log ''Error updating error message:'' s
      | Some m \<Rightarrow>
          (case api P (ChatUpdate (channel m) (ts m)
                  (Some (cross_mark @ '' Error: '' @ to_string_opt (field jsonMessage ''error'')))) s of
             (r, s1) \<Rightarrow>
               if is_rejected r then console_log ''Error updating error message:'' s1 else s1))"

text \<open>
  \<open>updateSlackMessage\<close> as one step, the wait for its retry included. It calls itself
  after a rate-limit rejection, with no bound: against a platform that always answers so it
  never returns, which is the value \<open>None\<close>.
\<close>

partial_function (option) updateSlackMessage ::
  "(nat \<Rightarrow> api_result) \<Rightarrow> string \<Rightarrow> state \<Rightarrow> state option" where
  "updateSlackMessage P content s =
     (case currentMessage s of
        None \<Rightarrow> Some s
      | Some m \<Rightarrow>
          if content = [] then Some s
          else
            (let r = fst (api P (ChatUpdate (channel m) (ts m) (Some content)) s);
                 s1 = snd (api P (ChatUpdate (channel m) (ts m) (Some content)) s)
             in if \<not> is_rejected r then Some s1
                else if is_rate_limited r
                  then updateSlackMessage P content (emit (Sleep (retry_after r * 1000)) s1)
                  else Some (console_log ''Error updating message:'' s1)))"

declare updateSlackMessage.simps [code]

subsection \<open>Splitting an oversized response\<close>

text \<open>One turn of the loop over the lines, on the pair of \<open>chunks\<close> and \<open>currentChunk\<close>.\<close>

definition split_step :: "string list \<times> string \<Rightarrow> string \<Rightarrow> string list \<times> string" where
  "split_step acc line =
     (case acc of (chunks, currentChunk) \<Rightarrow>
        if length currentChunk + length line + 1 > MAX_LENGTH
        then (chunks @ [currentChunk], line)
        else (chunks, if currentChunk \<noteq> [] then currentChunk @ [CHR 0x0A] @ line else line))"

definition split_chunks :: "string \<Rightarrow> string list" where
  "split_chunks content =
     (case foldl split_step ([], []) (split_lines content) of
        (chunks, currentChunk) \<Rightarrow>
          if currentChunk \<noteq> [] then chunks @ [currentChunk] else chunks)"

text \<open>
  The loop that posts \<open>chunks[i]\<close> for \<open>i \<ge> 1\<close> under the target message. The flag tells
  whether every call resolved; a rejection leaves the loop for the \<open>catch\<close> block.
\<close>

fun post_chunks ::
  "(nat \<Rightarrow> api_result) \<Rightarrow> slack_message \<Rightarrow> nat \<Rightarrow> string list \<Rightarrow> state \<Rightarrow> bool \<times> state" where
  "post_chunks P m i [] s = (True, s)"
| "post_chunks P m i (c # cs) s =
     (case api P (ChatPostMessage (channel m) (ts m) (Some c)) s of
        (r, s1) \<Rightarrow>
          if is_rejected r then (False, s1)
          else post_chunks P m (i + 1) cs
                 (console_log (''Posted chunk '' @ string_of_nat (i + 1) @ '':'') s1))"

definition handleChatResponse ::
  "(nat \<Rightarrow> api_result) \<Rightarrow> json \<Rightarrow> slack_message option \<Rightarrow> state \<Rightarrow> state" where
  "handleChatResponse P jsonMessage cm s =
     (case field jsonMessage ''content'' of
        Some (JStr c) \<Rightarrow>
          (let content = trim c
           in if content = [] then s
              else
                (let s1 = console_log ''Updating message with content:'' s
                 in if length content > MAX_LENGTH then
                      (let chunks = split_chunks content;
                           s2 = console_log (''Split content into ''
                                  @ string_of_nat (length chunks) @ '' chunks'') s1
                       in case cm of
                            None \<Rightarrow> console_log ''Error updating chat response:'' s2
                          | Some m \<Rightarrow>
                              (case api P (ChatUpdate (channel m) (ts m)
                                      (case chunks of [] \<Rightarrow> None | c0 # rest \<Rightarrow> Some c0)) s2 of
                                 (r, s3) \<Rightarrow>
                                   if is_rejected r
                                   then console_log ''Error updating chat response:'' s3
                                   else
                                     (case post_chunks P m 1
                                             (case chunks of [] \<Rightarrow> [] | c0 # rest \<Rightarrow> rest)
                                             (console_log ''Updated first chunk:'' s3) of
                                        (posted, s4) \<Rightarrow>
                                          if \<not> posted
                                          then console_log ''Error updating chat response:'' s4
                                          else if r = Resolved True
                                            then console_log
                                              ''Successfully updated Slack message with chunked content''
                                              (s4\<lparr>currentMessage := Some (m\<lparr>msg_text := content\<rparr>)\<rparr>)
                                            else s4)))
                    else
                      (case cm of
                         None \<Rightarrow> console_log ''Error updating chat response:'' s1
                       | Some m \<Rightarrow>
                           (case api P (ChatUpdate (channel m) (ts m) (Some content)) s1 of
                              (r, s2) \<Rightarrow>
                                if is_rejected r
                                then console_log ''Error updating chat response:'' s2
                                else s2))))
      | _ \<Rightarrow> console_log ''Error updating chat response:'' s)"

subsection \<open>The message handler as one step\<close>

text \<open>
  The handler after \<open>JSON.parse\<close> has returned \<open>jsonMessage\<close>; \<open>now\<close> is what \<open>Date.now()\<close>
  gives while the frame is handled. Reading \<open>.content\<close> of \<open>null\<close> throws, as does
  \<open>includes\<close> on a value that has none; both end in the outer \<open>catch\<close>. The handler is
  taken from its first line to its last: where it awaits a helper, the helper returns
  before any other event is handled.
\<close>

definition handle_frame ::
  "(nat \<Rightarrow> api_result) \<Rightarrow> json \<Rightarrow> int \<Rightarrow> state \<Rightarrow> state option" where
  "handle_frame P jsonMessage now s =
     (if jsonMessage = JNull then Some (console_log ''Error handling message:'' s)
      else
        (case content_includes_marker (field jsonMessage ''content'') of
           None \<Rightarrow> Some (console_log ''Error handling message:'' s)
         | Some True \<Rightarrow> Some (console_log ''Received connection confirmation'' s)
         | Some False \<Rightarrow>
             if field jsonMessage ''type'' = Some (JStr ''error'')
             then Some (handleErrorMessage P jsonMessage (currentMessage s) s)
             else if field jsonMessage ''type'' = Some (JStr ''stream_complete'')
             then
               (let s1 = (console_log ''Stream completed'' s)\<lparr>isStreaming := False\<rparr>
                in if messageContent s1 \<noteq> []
                   then map_option (\<lambda>s2. s2\<lparr>messageContent := [], lastUpdateTime := 0\<rparr>)
                          (updateSlackMessage P (messageContent s1) s1)
                   else Some s1)
             else if field jsonMessage ''type'' = Some (JStr ''stream_chunk'')
                     \<and> truthy (field jsonMessage ''content'')
             then
               (let s1 = s\<lparr>isStreaming := True,
                          messageContent := messageContent s
                            @ to_string_opt (field jsonMessage ''content'')\<rparr>
                in if now - lastUpdateTime s1 \<ge> updateInterval
                   then map_option (\<lambda>s2. s2\<lparr>lastUpdateTime := now\<rparr>)
                          (updateSlackMessage P (messageContent s1) s1)
                   else Some s1)
             else if (field jsonMessage ''type'' = Some (JStr ''chat_response'')
                        \<or> field jsonMessage ''type'' = Some (JStr ''stream''))
                     \<and> truthy (field jsonMessage ''content'') \<and> \<not> isStreaming s
             then Some (handleChatResponse P jsonMessage (currentMessage s) s)
             else Some s))"

text \<open>
  The \<open>message\<close> handler. \<open>JSON_parse\<close> stands for the built-in, \<open>None\<close> being its
  \<open>SyntaxError\<close>.
\<close>

definition on_message ::
  "(string \<Rightarrow> json option) \<Rightarrow> (nat \<Rightarrow> api_result) \<Rightarrow> string \<Rightarrow> int \<Rightarrow> state \<Rightarrow> state option" where
  "on_message JSON_parse P data now s =
     (case JSON_parse data of
        None \<Rightarrow> Some (console_log ''Failed to parse WebSocket message:'' s)
      | Some jsonMessage \<Rightarrow> handle_frame P jsonMessage now s)"

text \<open>
  The two \<open>error\<close> handlers: both print, the first also overwrites the target message when
  there is one.
\<close>

definition failure_text :: string where
  "failure_text = cross_mark @ '' Sorry, there was an error processing your request.''"

definition on_error :: "(nat \<Rightarrow> api_result) \<Rightarrow> state \<Rightarrow> state" where
  "on_error P s =
     (let s1 = console_log ''WebSocket error:'' s
      in case currentMessage s1 of
           None \<Rightarrow> console_log ''WebSocket error:'' s1
         | Some m \<Rightarrow>
             (case api P (ChatUpdate (channel m) (ts m) (Some failure_text)) s1 of
                (r, s2) \<Rightarrow>
                  (let s3 = console_log ''WebSocket error:'' s2
                   in if is_rejected r then console_log ''Error updating error message:'' s3
                      else s3)))"

text \<open>
  \<open>sendWebSocketMessage\<close> from the point where \<open>establishConnection\<close> and \<open>say\<close> have
  returned: \<open>response\<close> is the placeholder \<open>say\<close> posted. The turn's globals are reset and
  the request is sent.
\<close>

definition sendWebSocketMessage :: "string \<Rightarrow> slack_message \<Rightarrow> state \<Rightarrow> state" where
  "sendWebSocketMessage userMessage response s =
     (let s1 = s\<lparr>currentMessage := Some response, messageContent := [],
                lastUpdateTime := 0, isStreaming := False\<rparr>;
          s2 = console_log ''Sending message payload:'' s1
      in emit (WsSend (JObj [(''type'', JStr ''chat''), (''content'', JStr userMessage)])) s2)"

subsection \<open>Connection management\<close>

text \<open>
  \<open>establishConnection\<close>: nothing to do when the socket is open, otherwise a new socket
  replaces the old one and its handlers are registered.
\<close>

definition establishConnection :: "state \<Rightarrow> state" where
  "establishConnection s =
     (if ws s = Some OPEN then s
      else emit NewSocket (s\<lparr>ws := Some CONNECTING\<rparr>))"

text \<open>
  The \<open>open\<close> handler. It does not assign \<open>ws\<close>; the socket that opened is in state
  \<open>OPEN\<close> by then, which shows in \<open>ws\<close> when that socket is the one the variable
  refers to (\<open>current\<close>), and not when an older socket opens.
\<close>

definition on_open :: "bool \<Rightarrow> state \<Rightarrow> state" where
  "on_open current s =
     (let s1 = (if current then s\<lparr>ws := map_option (\<lambda>_. OPEN) (ws s)\<rparr> else s);
          s2 = console_log ''Connected to backend WebSocket'' s1
      in s2\<lparr>reconnectAttempts := 0\<rparr>)"

text \<open>
  The \<open>close\<close> handler. The delay is computed when the timer is set, from the counter as
  it stands then; the counter is incremented later, in the timer's callback.
\<close>

definition on_close :: "state \<Rightarrow> state" where
  "on_close s =
     (let s1 = console_log ''Backend WebSocket connection closed'' s;
          s2 = s1\<lparr>ws := None\<rparr>
      in if reconnectAttempts s2 < MAX_RECONNECT_ATTEMPTS
         then emit (SetTimeout (RECONNECT_DELAY * int (reconnectAttempts s2))) s2
         else s2)"

text \<open>The callback the \<open>close\<close> handler hands to \<open>setTimeout\<close>.\<close>

definition reconnect_timer :: "state \<Rightarrow> state" where
  "reconnect_timer s =
     (let s1 = s\<lparr>reconnectAttempts := reconnectAttempts s + 1\<rparr>;
          s2 = console_log (''Reconnecting... Attempt '' @ string_of_nat (reconnectAttempts s1)) s1
      in establishConnection s2)"

subsection \<open>Events\<close>

text \<open>
  What can happen to the relay: the socket events, the firing of a reconnect timer, and
  \<open>Connect\<close>, a user turn that reaches \<open>establishConnection\<close> in
  \<open>sendWebSocketMessage\<close>.
\<close>

datatype event = Open bool | Message string int | Error | Close | Timer | Connect

definition step ::
  "(string \<Rightarrow> json option) \<Rightarrow> (nat \<Rightarrow> api_result) \<Rightarrow> event \<Rightarrow> state \<Rightarrow> state option" where
  "step JSON_parse P ev s =
     (case ev of
        Open current \<Rightarrow> Some (on_open current s)
      | Message data now \<Rightarrow> on_message JSON_parse P data now s
      | Error \<Rightarrow> Some (on_error P s)
      | Close \<Rightarrow> Some (on_close s)
      | Timer \<Rightarrow> Some (reconnect_timer s)
      | Connect \<Rightarrow> Some (establishConnection s))"

fun run ::
  "(string \<Rightarrow> json option) \<Rightarrow> (nat \<Rightarrow> api_result) \<Rightarrow> event list \<Rightarrow> state \<Rightarrow> state option" where
  "run JSON_parse P [] s = Some s"
| "run JSON_parse P (ev # evs) s =
     (case step JSON_parse P ev s of
        None \<Rightarrow> None
      | Some s' \<Rightarrow> run JSON_parse P evs s')"

subsection \<open>The message handler with its awaits\<close>

text \<open>
  An \<open>await\<close> on a platform call or on a retry delay gives way to other events: frames
  that arrive meanwhile are handled before the handler that waits goes on. Here a handler
  runs up to its next \<open>await\<close>; what is left of it is kept as a task until the call is
  answered or the delay has passed. The relay keeps the globals, the calls in the order
  they were sent (\<open>sent\<close>; call \<open>n\<close> is the one at index \<open>n\<close>), the delays in the order
  they started (\<open>slept\<close>), and the tasks that wait for an answer or for the end of a
  delay. The fields \<open>effects\<close> and \<open>api_calls\<close> of the globals are not used here. A
  handler whose \<open>await\<close> has nothing to wait for goes on before the next event.
\<close>

text \<open>What the \<open>message\<close> handler does after \<open>await updateSlackMessage\<close>.\<close>

datatype cont = AfterChunk int | AfterComplete

text \<open>
  The handlers that wait for the answer to a call: \<open>updateSlackMessage\<close> with its content
  and its caller; \<open>handleErrorMessage\<close>; \<open>handleChatResponse\<close> after the update of the
  first chunk, with its target, the content and the chunks still to post, after the post of
  chunk \<open>i\<close>, with the \<open>ok\<close> of the first update in addition, and after the update of a
  short response.
\<close>

datatype task =
    UpdateSent string cont
  | ErrorSent
  | FirstChunkSent slack_message string "string list"
  | ChunkPosted slack_message string bool nat "string list"
  | ResponseSent

record relay =
  globals :: state
  sent :: "api_call list"
  slept :: "int list"
  awaiting :: "nat \<rightharpoonup> task"
  delayed :: "nat \<rightharpoonup> string \<times> cont"

definition tell :: "string \<Rightarrow> relay \<Rightarrow> relay" where
  "tell line r = r\<lparr>globals := console_log line (globals r)\<rparr>"

text \<open>Making a call: it is sent at once, and the task waits for its answer.\<close>

definition send :: "api_call \<Rightarrow> task \<Rightarrow> relay \<Rightarrow> relay" where
  "send c k r = r\<lparr>sent := sent r @ [c], awaiting := (awaiting r)(length (sent r) \<mapsto> k)\<rparr>"

definition resume :: "cont \<Rightarrow> relay \<Rightarrow> relay" where
  "resume k r =
     (case k of
        AfterChunk now \<Rightarrow> r\<lparr>globals := (globals r)\<lparr>lastUpdateTime := now\<rparr>\<rparr>
      | AfterComplete \<Rightarrow> r\<lparr>globals := (globals r)\<lparr>messageContent := [], lastUpdateTime := 0\<rparr>\<rparr>)"

text \<open>\<open>updateSlackMessage(content)\<close> up to its \<open>await\<close>; \<open>k\<close> is what its caller does next.\<close>

definition updateSlackMessage_start :: "string \<Rightarrow> cont \<Rightarrow> relay \<Rightarrow> relay" where
  "updateSlackMessage_start content k r =
     (case currentMessage (globals r) of
        None \<Rightarrow> resume k r
      | Some m \<Rightarrow>
          if content = [] then resume k r
          else send (ChatUpdate (channel m) (ts m) (Some content)) (UpdateSent content k) r)"

definition handleErrorMessage_start :: "json \<Rightarrow> slack_message option \<Rightarrow> relay \<Rightarrow> relay" where
  "handleErrorMessage_start jsonMessage cm r =
     (case cm of
        None \<Rightarrow> tell ''Error updating error message:'' r
      | Some m \<Rightarrow>
          send (ChatUpdate (channel m) (ts m)
                  (Some (cross_mark @ '' Error: '' @ to_string_opt (field jsonMessage ''error''))))
            ErrorSent r)"

text \<open>
  \<open>currentMessage.text = content\<close> in \<open>handleChatResponse\<close> writes to the object the
  handler was given; the global shows it when it still holds that message, which its
  channel and \<open>ts\<close> identify.
\<close>

definition set_text :: "slack_message \<Rightarrow> string \<Rightarrow> state \<Rightarrow> state" where
  "set_text m content s =
     (case currentMessage s of
        None \<Rightarrow> s
      | Some m' \<Rightarrow>
          if channel m' = channel m \<and> ts m' = ts m
          then s\<lparr>currentMessage := Some (m'\<lparr>msg_text := content\<rparr>)\<rparr>
          else s)"

text \<open>The loop of \<open>handleChatResponse\<close> at chunk \<open>i\<close>, and what follows the loop.\<close>

definition post_next ::
  "slack_message \<Rightarrow> string \<Rightarrow> bool \<Rightarrow> nat \<Rightarrow> string list \<Rightarrow> relay \<Rightarrow> relay" where
  "post_next m content ok i rest r =
     (case rest of
        [] \<Rightarrow>
          if ok
          then tell ''Successfully updated Slack message with chunked content''
                 (r\<lparr>globals := set_text m content (globals r)\<rparr>)
          else r
      | c # cs \<Rightarrow>
          send (ChatPostMessage (channel m) (ts m) (Some c)) (ChunkPosted m content ok i cs) r)"

definition handleChatResponse_start :: "json \<Rightarrow> slack_message option \<Rightarrow> relay \<Rightarrow> relay" where
  "handleChatResponse_start jsonMessage cm r =
     (case field jsonMessage ''content'' of
        Some (JStr c) \<Rightarrow>
          (let content = trim c
           in if content = [] then r
              else
                (let r1 = tell ''Updating message with content:'' r
                 in if length content > MAX_LENGTH then
                      (let chunks = split_chunks content;
                           r2 = tell (''Split content into ''
                                  @ string_of_nat (length chunks) @ '' chunks'') r1
                       in case cm of
                            None \<Rightarrow> tell ''Error updating chat response:'' r2
                          | Some m \<Rightarrow>
                              send (ChatUpdate (channel m) (ts m)
                                      (case chunks of [] \<Rightarrow> None | c0 # rest \<Rightarrow> Some c0))
                                (FirstChunkSent m content
                                   (case chunks of [] \<Rightarrow> [] | c0 # rest \<Rightarrow> rest)) r2)
                    else
                      (case cm of
                         None \<Rightarrow> tell ''Error updating chat response:'' r1
                       | Some m \<Rightarrow>
                           send (ChatUpdate (channel m) (ts m) (Some content)) ResponseSent r1)))
      | _ \<Rightarrow> tell ''Error updating chat response:'' r)"

text \<open>The \<open>message\<close> handler up to its first \<open>await\<close>.\<close>

definition on_message_start ::
  "(string \<Rightarrow> json option) \<Rightarrow> string \<Rightarrow> int \<Rightarrow> relay \<Rightarrow> relay" where
  "on_message_start JSON_parse data now r =
     (case JSON_parse data of
        None \<Rightarrow> tell ''Failed to parse WebSocket message:'' r
      | Some jsonMessage \<Rightarrow>
          if jsonMessage = JNull then tell ''Error handling message:'' r
          else
            (case content_includes_marker (field jsonMessage ''content'') of
               None \<Rightarrow> tell ''Error handling message:'' r
             | Some True \<Rightarrow> tell ''Received connection confirmation'' r
             | Some False \<Rightarrow>
                 if field jsonMessage ''type'' = Some (JStr ''error'')
                 then handleErrorMessage_start jsonMessage (currentMessage (globals r)) r
                 else if field jsonMessage ''type'' = Some (JStr ''stream_complete'')
                 then
                   (let r1 = r\<lparr>globals :=
                               (console_log ''Stream completed'' (globals r))
                                 \<lparr>isStreaming := False\<rparr>\<rparr>
                    in if messageContent (globals r1) \<noteq> []
                       then updateSlackMessage_start (messageContent (globals r1))
                              AfterComplete r1
                       else r1)
                 else if field jsonMessage ''type'' = Some (JStr ''stream_chunk'')
                         \<and> truthy (field jsonMessage ''content'')
                 then
                   (let r1 = r\<lparr>globals := (globals r)
                               \<lparr>isStreaming := True,
                                messageContent := messageContent (globals r)
                                  @ to_string_opt (field jsonMessage ''content'')\<rparr>\<rparr>
                    in if now - lastUpdateTime (globals r1) \<ge> updateInterval
                       then updateSlackMessage_start (messageContent (globals r1))
                              (AfterChunk now) r1
                       else r1)
                 else if (field jsonMessage ''type'' = Some (JStr ''chat_response'')
                            \<or> field jsonMessage ''type'' = Some (JStr ''stream''))
                         \<and> truthy (field jsonMessage ''content'')
                         \<and> \<not> isStreaming (globals r)
                 then handleChatResponse_start jsonMessage (currentMessage (globals r)) r
                 else r))"

text \<open>
  The platform answers call \<open>n\<close>: the task that waited for it goes on. A rate limit makes
  \<open>updateSlackMessage\<close> wait; any other answer lets its caller go on.
\<close>

definition settle :: "nat \<Rightarrow> api_result \<Rightarrow> relay \<Rightarrow> relay" where
  "settle n res r =
     (case awaiting r n of
        None \<Rightarrow> r
      | Some t \<Rightarrow>
          (let r1 = r\<lparr>awaiting := (awaiting r)(n := None)\<rparr>
           in case t of
                UpdateSent content k \<Rightarrow>
                  if \<not> is_rejected res then resume k r1
                  else if is_rate_limited res
                    then r1\<lparr>slept := slept r1 @ [retry_after res * 1000],
                            delayed := (delayed r1)(length (slept r1) \<mapsto> (content, k))\<rparr>
                    else resume k (tell ''Error updating message:'' r1)
              | ErrorSent \<Rightarrow>
                  if is_rejected res then tell ''Error updating error message:'' r1 else r1
              | FirstChunkSent m content rest \<Rightarrow>
                  if is_rejected res then tell ''Error updating chat response:'' r1
                  else post_next m content (res = Resolved True) 1 rest
                         (tell ''Updated first chunk:'' r1)
              | ChunkPosted m content ok i rest \<Rightarrow>
                  if is_rejected res then tell ''Error updating chat response:'' r1
                  else post_next m content ok (i + 1) rest
                         (tell (''Posted chunk '' @ string_of_nat (i + 1) @ '':'') r1)
              | ResponseSent \<Rightarrow>
                  if is_rejected res then tell ''Error updating chat response:'' r1 else r1))"

text \<open>Delay \<open>n\<close> has passed: \<open>updateSlackMessage\<close> calls itself with the content it was given.\<close>

definition wake :: "nat \<Rightarrow> relay \<Rightarrow> relay" where
  "wake n r =
     (case delayed r n of
        None \<Rightarrow> r
      | Some (content, k) \<Rightarrow>
          updateSlackMessage_start content k (r\<lparr>delayed := (delayed r)(n := None)\<rparr>))"

datatype signal = Frame string int | Settled nat api_result | Woke nat

definition react :: "(string \<Rightarrow> json option) \<Rightarrow> signal \<Rightarrow> relay \<Rightarrow> relay" where
  "react JSON_parse g r =
     (case g of
        Frame data now \<Rightarrow> on_message_start JSON_parse data now r
      | Settled n res \<Rightarrow> settle n res r
      | Woke n \<Rightarrow> wake n r)"

fun play :: "(string \<Rightarrow> json option) \<Rightarrow> signal list \<Rightarrow> relay \<Rightarrow> relay" where
  "play JSON_parse [] r = r"
| "play JSON_parse (g # gs) r = play JSON_parse gs (react JSON_parse g r)"

text \<open>A relay with nothing in flight.\<close>

definition quiet :: "state \<Rightarrow> relay" where
  "quiet s = \<lparr> globals = s, sent = [], slept = [], awaiting = Map.empty, delayed = Map.empty \<rparr>"

text \<open>The texts of the frames among the signals, in their order.\<close>

definition frame_texts :: "signal list \<Rightarrow> string list" where
  "frame_texts gs = concat (map (\<lambda>g. case g of Frame d t \<Rightarrow> [d] | _ \<Rightarrow> []) gs)"

text \<open>No answer among the signals is a rate limit.\<close>

definition no_rate_limit :: "signal list \<Rightarrow> bool" where
  "no_rate_limit gs =
     list_all (\<lambda>g. case g of Settled n res \<Rightarrow> \<not> is_rate_limited res | _ \<Rightarrow> True) gs"

text \<open>
  A text that decodes to a \<open>stream_chunk\<close> frame with the string \<open>c\<close> as content, and one
  that decodes to a \<open>stream_complete\<close> frame that passes the marker check.
\<close>

definition decodes_chunk :: "(string \<Rightarrow> json option) \<Rightarrow> string \<Rightarrow> string \<Rightarrow> bool" where
  "decodes_chunk JSON_parse d c =
     (case JSON_parse d of
        None \<Rightarrow> False
      | Some jsonMessage \<Rightarrow>
          field jsonMessage ''type'' = Some (JStr ''stream_chunk'')
          \<and> field jsonMessage ''content'' = Some (JStr c))"

definition decodes_complete :: "(string \<Rightarrow> json option) \<Rightarrow> string \<Rightarrow> bool" where
  "decodes_complete JSON_parse d =
     (case JSON_parse d of
        None \<Rightarrow> False
      | Some jsonMessage \<Rightarrow>
          field jsonMessage ''type'' = Some (JStr ''stream_complete'')
          \<and> content_includes_marker (field jsonMessage ''content'') = Some False)"

subsection \<open>Observations used in the statements\<close>

text \<open>The delays of the timers set so far, in the order they were set.\<close>

definition timeouts :: "effect list \<Rightarrow> int list" where
  "timeouts es = concat (map (\<lambda>e. case e of SetTimeout d \<Rightarrow> [d] | _ \<Rightarrow> []) es)"

text \<open>The waits made so far, in milliseconds.\<close>

definition waits :: "effect list \<Rightarrow> int list" where
  "waits es = concat (map (\<lambda>e. case e of Sleep d \<Rightarrow> [d] | _ \<Rightarrow> []) es)"

text \<open>
  \<open>n\<close> closes in a row, each followed by the firing of the timer it set: the socket the
  timer opens is the one that closes next.
\<close>

definition reconnect_rounds :: "nat \<Rightarrow> event list" where
  "reconnect_rounds n = concat (replicate n [Close, Timer])"

text \<open>The state after the first connection has been made and has opened.\<close>

definition connected :: state where
  "connected = on_open True (establishConnection initial)"

text \<open>
  Two environments for the examples: a platform on which every call resolves, and a socket
  whose texts are all rejected by \<open>JSON.parse\<close>.
\<close>

definition always_ok :: "nat \<Rightarrow> api_result" where
  "always_ok n = Resolved True"

definition no_text :: "string \<Rightarrow> json option" where
  "no_text d = None"

text \<open>The frames of a streamed answer, as the backend encodes them.\<close>

definition chunk_frame :: "string \<Rightarrow> json" where
  "chunk_frame c = JObj [(''type'', JStr ''stream_chunk''), (''content'', JStr c)]"

definition complete_frame :: json where
  "complete_frame = JObj [(''type'', JStr ''stream_complete'')]"

text \<open>The chunk contents that pass the connection-marker check.\<close>

definition accepted :: "string list \<Rightarrow> string list" where
  "accepted cs = filter (\<lambda>c. \<not> str_includes c marker) cs"

text \<open>
  Tasks that are flushes of the buffer, made for a chunk or for any frame; and a relay in
  which no delay runs and every call still awaited belongs to a task of the given kind.
\<close>

definition chunk_flush :: "task \<Rightarrow> bool" where
  "chunk_flush t = (case t of UpdateSent c (AfterChunk now) \<Rightarrow> True | _ \<Rightarrow> False)"

definition any_flush :: "task \<Rightarrow> bool" where
  "any_flush t = (case t of UpdateSent c k \<Rightarrow> True | _ \<Rightarrow> False)"

definition in_flight :: "(task \<Rightarrow> bool) \<Rightarrow> relay \<Rightarrow> bool" where
  "in_flight Q r = (delayed r = Map.empty \<and> (\<forall>n t. awaiting r n = Some t \<longrightarrow> Q t))"

text \<open>
  What the target shows, the platform taken to put in place each update it accepts when it
  answers it: the text of the last accepted update of that message; \<open>None\<close> while there is
  none and the placeholder still shows.
\<close>

definition accepted_text :: "effect \<Rightarrow> string \<Rightarrow> string \<Rightarrow> string option" where
  "accepted_text e ch t =
     (case e of
        Call (ChatUpdate ch' t' (Some x)) (Resolved True) \<Rightarrow>
          if ch' = ch \<and> t' = t then Some x else None
      | _ \<Rightarrow> None)"

definition target_text :: "effect list \<Rightarrow> string \<Rightarrow> string \<Rightarrow> string option" where
  "target_text es ch t =
     foldl (\<lambda>shown e. case accepted_text e ch t of Some x \<Rightarrow> Some x | None \<Rightarrow> shown) None es"

text \<open>
  Texts for the examples, with what \<open>JSON.parse\<close> makes of them; any other text is taken
  to be rejected. The turn of the examples starts on the first connection.
\<close>

definition text_hello :: string where
  \<open>text_hello = ''{"type":"stream_chunk","content":"Hello "}''\<close>

definition text_world :: string where
  \<open>text_world = ''{"type":"stream_chunk","content":" world"}''\<close>

definition text_greeting :: string where
  \<open>text_greeting = ''{"type":"stream_chunk","content":"Connected to ANA Multi-Agent"}''\<close>

definition text_complete :: string where
  \<open>text_complete = ''{"type":"stream_complete"}''\<close>

definition text_error :: string where
  \<open>text_error = ''{"type":"error","error":"backend down"}''\<close>

definition text_response :: string where
  \<open>text_response = ''{"type":"chat_response","content":"done"}''\<close>

definition text_error_greeting :: string where
  \<open>text_error_greeting
     = ''{"type":"error","error":"backend down","content":"Connected to ANA Multi-Agent"}''\<close>

definition sample_parse :: "string \<Rightarrow> json option" where
  "sample_parse = map_of
     [(text_hello, chunk_frame ''Hello ''),
      (text_world, chunk_frame '' world''),
      (text_greeting, chunk_frame ''Connected to ANA Multi-Agent''),
      (text_complete, complete_frame),
      (text_error, JObj [(''type'', JStr ''error''), (''error'', JStr ''backend down'')]),
      (text_response, JObj [(''type'', JStr ''chat_response''), (''content'', JStr ''done'')]),
      (text_error_greeting,
         JObj [(''type'', JStr ''error''), (''error'', JStr ''backend down''),
               (''content'', JStr ''Connected to ANA Multi-Agent'')])]"

definition placeholder :: slack_message where
  "placeholder = \<lparr> channel = ''D0123'', ts = ''1700000000.000100'', msg_text = ''Thinking...'' \<rparr>"

definition turn_started :: state where
  "turn_started = sendWebSocketMessage ''status?'' placeholder connected"

text \<open>A complete response as the backend encodes it.\<close>

definition response_frame :: "string \<Rightarrow> json" where
  "response_frame c = JObj [(''type'', JStr ''chat_response''), (''content'', JStr c)]"

text \<open>
  Contents longer than 3000 characters, already trimmed: a first line of exactly 3000
  characters; two lines that fill a chunk to 3000 characters, followed by a blank line; two
  lines of 2000 characters.
\<close>

definition long_first_line :: string where
  "long_first_line = replicate 3000 (CHR ''a'') @ [CHR 0x0A] @ ''b''"

definition blank_after_full :: string where
  "blank_after_full = replicate 1500 (CHR ''a'') @ [CHR 0x0A] @ replicate 1499 (CHR ''a'')
     @ [CHR 0x0A, CHR 0x0A] @ ''b''"

definition two_lines :: string where
  "two_lines = replicate 2000 (CHR ''a'') @ [CHR 0x0A] @ replicate 2000 (CHR ''b'')"

text \<open>A platform that rejects its \<open>k\<close>-th call with a rate limit of one second.\<close>

definition rate_limited_at :: "nat \<Rightarrow> nat \<Rightarrow> api_result" where
  "rate_limited_at k n = (if n = k then Rejected ''rate_limited'' (Some 1) else Resolved True)"

section \<open>Connection lifecycle\<close>

lemma timeouts_append: "timeouts (xs @ ys) = timeouts xs @ timeouts ys"
  by (simp add: timeouts_def)

lemma run_append:
  "run J P (xs @ ys) s = (case run J P xs s of None \<Rightarrow> None | Some s' \<Rightarrow> run J P ys s')"
  by (induction xs arbitrary: s) (auto split: option.splits)

lemma establishConnection_counter:
  "reconnectAttempts (establishConnection s) = reconnectAttempts s"
  by (simp add: establishConnection_def emit_def)

lemma establishConnection_timeouts:
  "timeouts (effects (establishConnection s)) = timeouts (effects s)"
  by (simp add: establishConnection_def emit_def timeouts_def)

lemma on_close_below:
  "reconnectAttempts s < MAX_RECONNECT_ATTEMPTS \<Longrightarrow>
     effects (on_close s) = effects s @ [SetTimeout (RECONNECT_DELAY * int (reconnectAttempts s))]"
  by (simp add: on_close_def Let_def console_log_def emit_def)


lemma on_close_counter: "reconnectAttempts (on_close s) = reconnectAttempts s"
  by (simp add: on_close_def Let_def console_log_def emit_def)

lemma reconnect_timer_counter: "reconnectAttempts (reconnect_timer s) = reconnectAttempts s + 1"
  by (simp add: reconnect_timer_def Let_def console_log_def establishConnection_counter)

lemma reconnect_timer_timeouts: "timeouts (effects (reconnect_timer s)) = timeouts (effects s)"
  by (simp add: reconnect_timer_def Let_def console_log_def establishConnection_timeouts)

lemma one_round:
  assumes "reconnectAttempts s < MAX_RECONNECT_ATTEMPTS"
  shows "run J P [Close, Timer] s = Some (reconnect_timer (on_close s))"
    and "reconnectAttempts (reconnect_timer (on_close s)) = reconnectAttempts s + 1"
    and "timeouts (effects (reconnect_timer (on_close s)))
           = timeouts (effects s) @ [RECONNECT_DELAY * int (reconnectAttempts s)]"
  using assms
  by (simp_all add: step_def reconnect_timer_counter on_close_counter reconnect_timer_timeouts
      on_close_below timeouts_append, simp add: timeouts_def)

lemma rounds_run:
  "reconnectAttempts s + n \<le> MAX_RECONNECT_ATTEMPTS \<Longrightarrow>
     \<exists>s'. run J P (reconnect_rounds n) s = Some s'
        \<and> reconnectAttempts s' = reconnectAttempts s + n
        \<and> timeouts (effects s') = timeouts (effects s)
             @ map (\<lambda>k. RECONNECT_DELAY * int k) [reconnectAttempts s ..< reconnectAttempts s + n]"
proof (induction n arbitrary: s)
  case 0
  then show ?case by (simp add: reconnect_rounds_def)
next
  case (Suc n)
  let ?s1 = "reconnect_timer (on_close s)"
  from Suc.prems have below: "reconnectAttempts s < MAX_RECONNECT_ATTEMPTS" by simp
  note r = one_round(1) [OF below, of J P] one_round(2) [OF below] one_round(3) [OF below]
  from Suc.prems r(2) have "reconnectAttempts ?s1 + n \<le> MAX_RECONNECT_ATTEMPTS" by simp
  from Suc.IH [OF this] obtain s' where
    run': "run J P (reconnect_rounds n) ?s1 = Some s'"
    and cnt: "reconnectAttempts s' = reconnectAttempts ?s1 + n"
    and tm: "timeouts (effects s') = timeouts (effects ?s1)
             @ map (\<lambda>k. RECONNECT_DELAY * int k) [reconnectAttempts ?s1 ..< reconnectAttempts ?s1 + n]"
    by blast
  have "reconnect_rounds (Suc n) = [Close, Timer] @ reconnect_rounds n"
    by (simp add: reconnect_rounds_def)
  then have "run J P (reconnect_rounds (Suc n)) s = Some s'"
    using r(1) run' by (simp only: run_append option.case)
  moreover have "reconnectAttempts s' = reconnectAttempts s + Suc n"
    using cnt r(2) by simp
  moreover have "timeouts (effects s') = timeouts (effects s)
             @ map (\<lambda>k. RECONNECT_DELAY * int k) [reconnectAttempts s ..< reconnectAttempts s + Suc n]"
    using tm r(2,3) by (simp add: upt_conv_Cons del: upt_Suc)
  ultimately show ?case by blast
qed










lemma on_open_counter: "reconnectAttempts (on_open current s) = 0"
  by (simp add: on_open_def Let_def console_log_def)

lemma connected_counter: "reconnectAttempts connected = 0"
  by (simp add: connected_def on_open_counter)

lemma connected_timeouts: "timeouts (effects connected) = []"
  by (simp add: connected_def on_open_def initial_def establishConnection_def emit_def
      console_log_def timeouts_def Let_def)




text \<open>
  Claim C3, as the code has it. A close below the ceiling sets one timer, whose delay is
  1000 ms times the counter as it stands at the close; the counter is incremented by one
  when the timer fires, before the reconnect. After a successful open the delays of the
  five automatic reconnects are therefore 0, 1000, 2000, 3000 and 4000 ms.
\<close>

theorem reconnect_delay_schedule:
  "reconnectAttempts s < MAX_RECONNECT_ATTEMPTS \<Longrightarrow>
     step J P Close s = Some (on_close s)
   \<and> effects (on_close s) = effects s @ [SetTimeout (1000 * int (reconnectAttempts s))]
   \<and> reconnectAttempts (on_close s) = reconnectAttempts s
   \<and> step J P Timer (on_close s) = Some (reconnect_timer (on_close s))
   \<and> reconnectAttempts (reconnect_timer (on_close s)) = reconnectAttempts s + 1
   \<and> (reconnectAttempts s = 0 \<longrightarrow>
        (\<exists>s'. run J P (reconnect_rounds 5) s = Some s'
           \<and> timeouts (effects s') = timeouts (effects s) @ [0, 1000, 2000, 3000, 4000]))"
proof (intro conjI impI)
  assume below: "reconnectAttempts s < MAX_RECONNECT_ATTEMPTS"
  show "step J P Close s = Some (on_close s)" by (simp add: step_def)
  show "effects (on_close s) = effects s @ [SetTimeout (1000 * int (reconnectAttempts s))]"
    using on_close_below [OF below] by (simp add: RECONNECT_DELAY_def)
  show "reconnectAttempts (on_close s) = reconnectAttempts s" by (rule on_close_counter)
  show "step J P Timer (on_close s) = Some (reconnect_timer (on_close s))"
    by (simp add: step_def)
  show "reconnectAttempts (reconnect_timer (on_close s)) = reconnectAttempts s + 1"
    by (simp add: reconnect_timer_counter on_close_counter)
next
  assume z: "reconnectAttempts s = 0"
  then have "reconnectAttempts s + 5 \<le> MAX_RECONNECT_ATTEMPTS"
    by (simp add: MAX_RECONNECT_ATTEMPTS_def)
  from rounds_run [OF this, of J P] obtain s' where
    r: "run J P (reconnect_rounds 5) s = Some s'"
    and t: "timeouts (effects s') = timeouts (effects s)
             @ map (\<lambda>k. RECONNECT_DELAY * int k) [reconnectAttempts s ..< reconnectAttempts s + 5]"
    by blast
  have "[0 ..< 5] = [0, 1, 2, 3, 4::nat]" by (simp add: upt_rec)
  with t z have "timeouts (effects s') = timeouts (effects s) @ [0, 1000, 2000, 3000, 4000]"
    by (simp add: RECONNECT_DELAY_def)
  with r show "\<exists>s'. run J P (reconnect_rounds 5) s = Some s'
           \<and> timeouts (effects s') = timeouts (effects s) @ [0, 1000, 2000, 3000, 4000]"
    by blast
qed

theorem reconnect_delay_schedule_witness:
  "reconnectAttempts connected < MAX_RECONNECT_ATTEMPTS
   \<and> effects (on_close connected) = effects connected @ [SetTimeout 0]
   \<and> reconnectAttempts (reconnect_timer (on_close connected)) = 1
   \<and> (\<exists>s'. run no_text always_ok (reconnect_rounds 5) connected = Some s'
         \<and> timeouts (effects s') = [0, 1000, 2000, 3000, 4000])"
proof -
  have b: "reconnectAttempts connected < MAX_RECONNECT_ATTEMPTS"
    by (simp add: connected_counter MAX_RECONNECT_ATTEMPTS_def)
  show ?thesis
    using reconnect_delay_schedule [OF b, of no_text always_ok] b
    by (simp add: connected_counter connected_timeouts)
qed

text \<open>
  Claim C3 as stated gives the delays 1000 to 5000 ms. On the first connection, opened and
  then closed five times with a reconnect after each close, the delays are 0 to 4000 ms.
\<close>

theorem reconnect_delays_counterexample:
  "map_option (\<lambda>s. timeouts (effects s)) (run no_text always_ok (reconnect_rounds 5) connected)
     = Some [0, 1000, 2000, 3000, 4000]
   \<and> map_option (\<lambda>s. timeouts (effects s)) (run no_text always_ok (reconnect_rounds 5) connected)
     \<noteq> Some [1000, 2000, 3000, 4000, 5000]"
proof -
  have "reconnectAttempts connected + 5 \<le> MAX_RECONNECT_ATTEMPTS"
    by (simp add: connected_counter MAX_RECONNECT_ATTEMPTS_def)
  from rounds_run [OF this, of no_text always_ok] obtain s' where
    r: "run no_text always_ok (reconnect_rounds 5) connected = Some s'"
    and t: "timeouts (effects s') = timeouts (effects connected)
             @ map (\<lambda>k. RECONNECT_DELAY * int k)
                 [reconnectAttempts connected ..< reconnectAttempts connected + 5]"
    by blast
  have "[0 ..< 5] = [0, 1, 2, 3, 4::nat]" by (simp add: upt_rec)
  with t have "timeouts (effects s') = [0, 1000, 2000, 3000, 4000]"
    by (simp add: RECONNECT_DELAY_def connected_counter connected_timeouts)
  with r show ?thesis by simp
qed

section \<open>The message handler\<close>

lemma is_prefix_iff: "is_prefix n c \<longleftrightarrow> (\<exists>b. c = n @ b)"
  by (induction n c rule: is_prefix.induct) auto

lemma str_includes_iff: "str_includes c n \<longleftrightarrow> (\<exists>a b. c = a @ n @ b)"
proof (induction c)
  case Nil
  then show ?case by auto
next
  case (Cons x c)
  show ?case
  proof
    assume "str_includes (x # c) n"
    then consider "is_prefix n (x # c)" | "str_includes c n" by auto
    then show "\<exists>a b. x # c = a @ n @ b"
    proof cases
      case 1
      then obtain b where "x # c = n @ b" by (auto simp: is_prefix_iff)
      then have "x # c = [] @ n @ b" by simp
      then show ?thesis by blast
    next
      case 2
      with Cons.IH obtain a b where "c = a @ n @ b" by blast
      then have "x # c = (x # a) @ n @ b" by simp
      then show ?thesis by blast
    qed
  next
    assume "\<exists>a b. x # c = a @ n @ b"
    then obtain a b where ab: "x # c = a @ n @ b" by blast
    show "str_includes (x # c) n"
    proof (cases a)
      case Nil
      with ab have "is_prefix n (x # c)" by (auto simp: is_prefix_iff)
      then show ?thesis by simp
    next
      case (Cons y a')
      with ab have "c = a' @ n @ b" by simp
      with Cons.IH have "str_includes c n" by blast
      then show ?thesis by simp
    qed
  qed
qed

lemma chunk_frame_fields:
  "chunk_frame c \<noteq> JNull"
  "field (chunk_frame c) ''type'' = Some (JStr ''stream_chunk'')"
  "field (chunk_frame c) ''content'' = Some (JStr c)"
  by (simp_all add: chunk_frame_def field_def)

lemma complete_frame_fields:
  "complete_frame \<noteq> JNull"
  "field complete_frame ''type'' = Some (JStr ''stream_complete'')"
  "field complete_frame ''content'' = None"
  by (simp_all add: complete_frame_def field_def)

lemma marker_not_empty: "marker \<noteq> []"
  by (simp add: marker_def)

lemma marker_not_in_empty: "\<not> str_includes [] marker"
  by (simp add: marker_def)

lemma sample_parse_simps:
  "sample_parse text_hello = Some (chunk_frame ''Hello '')"
  "sample_parse text_world = Some (chunk_frame '' world'')"
  "sample_parse text_greeting = Some (chunk_frame ''Connected to ANA Multi-Agent'')"
  "sample_parse text_complete = Some complete_frame"
  "sample_parse text_error
     = Some (JObj [(''type'', JStr ''error''), (''error'', JStr ''backend down'')])"
  "sample_parse text_response
     = Some (JObj [(''type'', JStr ''chat_response''), (''content'', JStr ''done'')])"
  "sample_parse ''not json'' = None"
  "sample_parse text_error_greeting
     = Some (JObj [(''type'', JStr ''error''), (''error'', JStr ''backend down''),
               (''content'', JStr ''Connected to ANA Multi-Agent'')])"
  by (simp_all add: sample_parse_def text_hello_def text_world_def text_greeting_def
      text_complete_def text_error_def text_response_def text_error_greeting_def)

lemma turn_started_simps:
  "currentMessage turn_started = Some placeholder"
  "messageContent turn_started = []"
  "lastUpdateTime turn_started = 0"
  "isStreaming turn_started = False"
  "api_calls turn_started = 0"
  "effects turn_started
     = [NewSocket, WsSend (JObj [(''type'', JStr ''chat''), (''content'', JStr ''status?'')])]"
  by (simp_all add: turn_started_def sendWebSocketMessage_def connected_def on_open_def
      establishConnection_def initial_def emit_def console_log_def Let_def)

text \<open>
  Claim C7. A text that \<open>JSON.parse\<close> rejects leaves the handler at once: it returns, the
  state is the one before but for the line printed, so the target message, the buffer, the
  streaming flag and the last-flush time are unchanged and no platform call is made.
\<close>

theorem malformed_json_discarded:
  "JSON_parse data = None \<Longrightarrow>
     on_message JSON_parse P data now s
       = Some (s\<lparr>console := console s @ [''Failed to parse WebSocket message:'']\<rparr>)"
  by (simp add: on_message_def console_log_def)

theorem malformed_json_discarded_witness:
  "sample_parse ''not json'' = None
   \<and> on_message sample_parse always_ok ''not json'' 1700000000000 turn_started
       = Some (turn_started\<lparr>console := console turn_started
                 @ [''Failed to parse WebSocket message:'']\<rparr>)"
  using malformed_json_discarded [of sample_parse "''not json''" always_ok 1700000000000
      turn_started]
  by (simp add: sample_parse_simps)

text \<open>
  Claim C10. A decoded frame whose \<open>content\<close> is a string with the marker somewhere in it
  is dropped after one line is printed, whatever its \<open>type\<close>: nothing is appended to the
  buffer and no platform call is made.
\<close>

theorem marker_frame_discarded:
  "JSON_parse data = Some jsonMessage \<Longrightarrow>
   field jsonMessage ''content'' = Some (JStr (a @ marker @ b)) \<Longrightarrow>
     on_message JSON_parse P data now s
       = Some (s\<lparr>console := console s @ [''Received connection confirmation'']\<rparr>)"
proof -
  assume p: "JSON_parse data = Some jsonMessage"
    and c: "field jsonMessage ''content'' = Some (JStr (a @ marker @ b))"
  from c have nn: "jsonMessage \<noteq> JNull" by (auto simp: field_def)
  have "str_includes (a @ marker @ b) marker" by (auto simp: str_includes_iff)
  then have "content_includes_marker (field jsonMessage ''content'') = Some True"
    using c by (simp add: content_includes_marker_def)
  then show ?thesis
    using p nn by (simp add: on_message_def handle_frame_def console_log_def)
qed

theorem marker_frame_discarded_witness:
  "sample_parse text_greeting = Some (chunk_frame ''Connected to ANA Multi-Agent'')
   \<and> field (chunk_frame ''Connected to ANA Multi-Agent'') ''content''
       = Some (JStr ([] @ marker @ []))
   \<and> on_message sample_parse always_ok text_greeting 1700000000000 turn_started
       = Some (turn_started\<lparr>console := console turn_started
                 @ [''Received connection confirmation'']\<rparr>)"
proof -
  have f: "field (chunk_frame ''Connected to ANA Multi-Agent'') ''content''
       = Some (JStr ([] @ marker @ []))"
    by (simp add: chunk_frame_fields marker_def)
  show ?thesis
    using marker_frame_discarded [where JSON_parse = sample_parse and data = text_greeting
        and a = "[]" and b = "[]" and P = always_ok and now = 1700000000000
        and s = turn_started, OF sample_parse_simps(3) f] f
    by (simp add: sample_parse_simps)
qed

text \<open>
  Claim C9. While the streaming flag is set, a frame of type \<open>chat_response\<close> or \<open>stream\<close>
  changes nothing but the console: the turn's state is kept and no platform call is made.
\<close>

theorem complete_message_ignored_while_streaming:
  "isStreaming s \<Longrightarrow> JSON_parse data = Some jsonMessage \<Longrightarrow>
   field jsonMessage ''type'' = Some (JStr ''chat_response'')
     \<or> field jsonMessage ''type'' = Some (JStr ''stream'') \<Longrightarrow>
   \<exists>lines. on_message JSON_parse P data now s = Some (s\<lparr>console := console s @ lines\<rparr>)"
proof -
  assume st: "isStreaming s" and p: "JSON_parse data = Some jsonMessage"
    and ty: "field jsonMessage ''type'' = Some (JStr ''chat_response'')
     \<or> field jsonMessage ''type'' = Some (JStr ''stream'')"
  from ty have nn: "jsonMessage \<noteq> JNull" by (auto simp: field_def)
  have s_eq: "s = s\<lparr>console := console s @ []\<rparr>" by simp
  consider (throws) "content_includes_marker (field jsonMessage ''content'') = None"
    | (ack) "content_includes_marker (field jsonMessage ''content'') = Some True"
    | (pass) "content_includes_marker (field jsonMessage ''content'') = Some False"
    by (cases "content_includes_marker (field jsonMessage ''content'')") auto
  then show ?thesis
  proof cases
    case throws
    then have "on_message JSON_parse P data now s
        = Some (s\<lparr>console := console s @ [''Error handling message:'']\<rparr>)"
      using p nn by (simp add: on_message_def handle_frame_def console_log_def)
    then show ?thesis by blast
  next
    case ack
    then have "on_message JSON_parse P data now s
        = Some (s\<lparr>console := console s @ [''Received connection confirmation'']\<rparr>)"
      using p nn by (simp add: on_message_def handle_frame_def console_log_def)
    then show ?thesis by blast
  next
    case pass
    then have "on_message JSON_parse P data now s = Some s"
      using p nn st ty by (auto simp: on_message_def handle_frame_def)
    then have "on_message JSON_parse P data now s = Some (s\<lparr>console := console s @ []\<rparr>)"
      by simp
    then show ?thesis by blast
  qed
qed

theorem complete_message_ignored_while_streaming_witness:
  "isStreaming (turn_started\<lparr>isStreaming := True\<rparr>)
   \<and> sample_parse text_response
       = Some (JObj [(''type'', JStr ''chat_response''), (''content'', JStr ''done'')])
   \<and> field (JObj [(''type'', JStr ''chat_response''), (''content'', JStr ''done'')]) ''type''
       = Some (JStr ''chat_response'')
   \<and> (\<exists>lines. on_message sample_parse always_ok text_response 1700000000000
                  (turn_started\<lparr>isStreaming := True\<rparr>)
         = Some (turn_started\<lparr>isStreaming := True,
                   console := console turn_started @ lines\<rparr>))"
proof -
  have st: "isStreaming (turn_started\<lparr>isStreaming := True\<rparr>)" by simp
  have f: "field (JObj [(''type'', JStr ''chat_response''), (''content'', JStr ''done'')]) ''type''
       = Some (JStr ''chat_response'')"
    by (simp add: field_def)
  show ?thesis
    using complete_message_ignored_while_streaming
      [where JSON_parse = sample_parse and data = text_response and P = always_ok
        and now = 1700000000000 and s = "turn_started\<lparr>isStreaming := True\<rparr>",
        OF st sample_parse_simps(6) disjI1 [OF f]] f
    by (simp add: sample_parse_simps)
qed

lemma target_text_snoc:
  "target_text (es @ [e]) ch t
     = (case accepted_text e ch t of Some x \<Rightarrow> Some x | None \<Rightarrow> target_text es ch t)"
  by (simp add: target_text_def split: option.splits)

lemma accepted_text_simps:
  "accepted_text (Call (ChatUpdate ch t (Some x)) (Resolved True)) ch t = Some x"
  "is_rejected res \<Longrightarrow> accepted_text (Call c res) ch t = None"
  by (auto simp: accepted_text_def is_rejected_def split: api_call.splits option.splits
      api_result.splits bool.splits)

lemma quiet_simps:
  "globals (quiet s) = s" "sent (quiet s) = []" "slept (quiet s) = []"
  "awaiting (quiet s) = Map.empty" "delayed (quiet s) = Map.empty"
  by (simp_all add: quiet_def)

text \<open>
  Claim C8, as the code has it. An error frame, \<open>type\<close> being \<open>error\<close> and \<open>error\<close> the
  description, reaches the error branch when its \<open>content\<close> passes the marker check that
  comes first: it is absent, \<open>null\<close>, or a string or an array without the marker. When
  there is a target message the handler then sends, at once, one update of that message, in
  its channel and at its id, with the text made of the prefix and the description as it
  came. The target shows that text when the platform accepts the update; a rejection is
  only printed and leaves the target as it was.
\<close>

theorem error_frame_overwrites_target:
  assumes cm: "currentMessage s = Some m" and p: "JSON_parse data = Some jsonMessage"
    and ty: "field jsonMessage ''type'' = Some (JStr ''error'')"
    and er: "field jsonMessage ''error'' = Some (JStr e)"
    and co: "content_includes_marker (field jsonMessage ''content'') = Some False"
  shows "\<exists>s'. on_message JSON_parse P data now s = Some s'
      \<and> effects s' = effects s
           @ [Call (ChatUpdate (channel m) (ts m) (Some (cross_mark @ '' Error: '' @ e)))
                (P (api_calls s))]
      \<and> currentMessage s' = Some m
      \<and> (P (api_calls s) = Resolved True \<longrightarrow>
            target_text (effects s') (channel m) (ts m) = Some (cross_mark @ '' Error: '' @ e))
      \<and> (is_rejected (P (api_calls s)) \<longrightarrow>
            target_text (effects s') (channel m) (ts m)
              = target_text (effects s) (channel m) (ts m)
            \<and> console s' = console s @ [''Error updating error message:''])
      \<and> (\<forall>r. globals r = s \<longrightarrow>
            sent (on_message_start JSON_parse data now r)
              = sent r @ [ChatUpdate (channel m) (ts m) (Some (cross_mark @ '' Error: '' @ e))])"
proof -
  let ?c = "ChatUpdate (channel m) (ts m) (Some (cross_mark @ '' Error: '' @ e))"
  let ?s' = "handleErrorMessage P jsonMessage (Some m) s"
  from ty have nn: "jsonMessage \<noteq> JNull" by (auto simp: field_def)
  have run: "on_message JSON_parse P data now s = Some ?s'"
    using p nn ty co cm by (simp add: on_message_def handle_frame_def)
  have ef: "effects ?s' = effects s @ [Call ?c (P (api_calls s))]"
    using er
    by (simp add: handleErrorMessage_def api_def Let_def emit_def console_log_def
        to_string_opt_def)
  have keep: "currentMessage ?s' = Some m"
    using cm by (simp add: handleErrorMessage_def api_def Let_def emit_def console_log_def)
  have ok: "target_text (effects ?s') (channel m) (ts m) = Some (cross_mark @ '' Error: '' @ e)"
    if "P (api_calls s) = Resolved True"
    using that by (simp add: ef target_text_snoc accepted_text_simps)
  have no: "target_text (effects ?s') (channel m) (ts m)
              = target_text (effects s) (channel m) (ts m)
            \<and> console ?s' = console s @ [''Error updating error message:'']"
    if "is_rejected (P (api_calls s))"
    using that
    by (simp add: ef target_text_snoc accepted_text_simps handleErrorMessage_def api_def
        Let_def emit_def console_log_def)
  have now: "sent (on_message_start JSON_parse data now r) = sent r @ [?c]"
    if "globals r = s" for r
    using that p nn ty co cm er
    by (simp add: on_message_start_def handleErrorMessage_start_def send_def to_string_opt_def)
  from run ef keep ok no now show ?thesis by blast
qed

theorem error_frame_overwrites_target_witness:
  "currentMessage turn_started = Some placeholder
   \<and> sample_parse text_error
       = Some (JObj [(''type'', JStr ''error''), (''error'', JStr ''backend down'')])
   \<and> content_includes_marker
        (field (JObj [(''type'', JStr ''error''), (''error'', JStr ''backend down'')]) ''content'')
       = Some False
   \<and> always_ok (api_calls turn_started) = Resolved True
   \<and> (\<exists>s'. on_message sample_parse always_ok text_error 1700000000000 turn_started = Some s'
        \<and> effects s' = effects turn_started
             @ [Call (ChatUpdate (channel placeholder) (ts placeholder)
                        (Some (cross_mark @ '' Error: backend down''))) (Resolved True)]
        \<and> target_text (effects s') (channel placeholder) (ts placeholder)
             = Some (cross_mark @ '' Error: backend down''))
   \<and> sent (on_message_start sample_parse text_error 1700000000000 (quiet turn_started))
       = [ChatUpdate (channel placeholder) (ts placeholder)
            (Some (cross_mark @ '' Error: backend down''))]"
proof -
  let ?f = "JObj [(''type'', JStr ''error''), (''error'', JStr ''backend down'')]"
  have f: "field ?f ''type'' = Some (JStr ''error'')"
    "field ?f ''error'' = Some (JStr ''backend down'')"
    "content_includes_marker (field ?f ''content'') = Some False"
    by (simp_all add: field_def content_includes_marker_def)
  have ok: "always_ok (api_calls turn_started) = Resolved True" by (simp add: always_ok_def)
  from error_frame_overwrites_target
      [where JSON_parse = sample_parse and data = text_error and P = always_ok
        and now = 1700000000000 and s = turn_started and m = placeholder
        and e = "''backend down''", OF turn_started_simps(1) sample_parse_simps(5) f]
  obtain s' where
    "on_message sample_parse always_ok text_error 1700000000000 turn_started = Some s'"
    "effects s' = effects turn_started
       @ [Call (ChatUpdate (channel placeholder) (ts placeholder)
                  (Some (cross_mark @ '' Error: backend down''))) (Resolved True)]"
    "target_text (effects s') (channel placeholder) (ts placeholder)
       = Some (cross_mark @ '' Error: backend down'')"
    "sent (on_message_start sample_parse text_error 1700000000000 (quiet turn_started))
       = sent (quiet turn_started)
         @ [ChatUpdate (channel placeholder) (ts placeholder)
              (Some (cross_mark @ '' Error: backend down''))]"
    using ok by (auto simp: quiet_simps)
  then show ?thesis
    using f(3) ok by (simp add: turn_started_simps(1) sample_parse_simps quiet_simps)
qed

text \<open>
  Claim C8 as stated holds of every error frame and has the target overwritten. An error
  frame whose \<open>content\<close> holds the marker is dropped by the marker check and no update is
  made; and when the platform rejects the update the target shows no error text.
\<close>

theorem error_frame_counterexample:
  "on_message sample_parse always_ok text_error_greeting 1700000000000 turn_started
     = Some (turn_started\<lparr>console := console turn_started
               @ [''Received connection confirmation'']\<rparr>)
   \<and> map_option (\<lambda>s. target_text (effects s) (channel placeholder) (ts placeholder))
       (on_message sample_parse (rate_limited_at 0) text_error 1700000000000 turn_started)
     = Some None"
  by (simp add: on_message_def handle_frame_def sample_parse_simps field_def
      content_includes_marker_def marker_def console_log_def handleErrorMessage_def api_def
      Let_def emit_def turn_started_simps rate_limited_at_def is_rejected_def to_string_opt_def
      target_text_def accepted_text_def)

section \<open>Streaming\<close>

lemma rate_limited_rejected: "is_rate_limited r \<Longrightarrow> is_rejected r"
  by (cases r) (auto simp: is_rate_limited_def is_rejected_def)

lemma upd_answered:
  assumes "currentMessage s = Some m" "c \<noteq> []" "\<not> is_rate_limited (P (api_calls s))"
  shows "updateSlackMessage P c s
     = Some (let s1 = snd (api P (ChatUpdate (channel m) (ts m) (Some c)) s)
             in if is_rejected (P (api_calls s)) then console_log ''Error updating message:'' s1
                else s1)"
  using assms
  by (subst updateSlackMessage.simps) (simp add: Let_def api_def)

lemma upd_retry:
  assumes "currentMessage s = Some m" "c \<noteq> []" "is_rate_limited (P (api_calls s))"
  shows "updateSlackMessage P c s
     = updateSlackMessage P c
         (emit (Sleep (retry_after (P (api_calls s)) * 1000))
            (snd (api P (ChatUpdate (channel m) (ts m) (Some c)) s)))"
  using assms rate_limited_rejected [OF assms(3)]
  by (subst updateSlackMessage.simps) (simp add: Let_def api_def)

lemma chunk_flush_any: "chunk_flush t \<Longrightarrow> any_flush t"
  by (auto simp: chunk_flush_def any_flush_def split: task.splits cont.splits)

lemma in_flight_weaken: "in_flight chunk_flush r \<Longrightarrow> in_flight any_flush r"
  by (auto simp: in_flight_def chunk_flush_any)

lemma quiet_in_flight: "awaiting r = Map.empty \<Longrightarrow> delayed r = Map.empty \<Longrightarrow> in_flight Q r"
  by (simp add: in_flight_def)

lemma wake_in_flight: "in_flight Q r \<Longrightarrow> wake n r = r"
  by (simp add: in_flight_def wake_def)

lemma settle_idle: "awaiting r n = None \<Longrightarrow> settle n res r = r"
  by (simp add: settle_def)

lemma settle_update:
  assumes "awaiting r n = Some (UpdateSent c k)" "\<not> is_rate_limited res"
  shows "settle n res r
     = resume k (if is_rejected res
                 then tell ''Error updating message:'' (r\<lparr>awaiting := (awaiting r)(n := None)\<rparr>)
                 else r\<lparr>awaiting := (awaiting r)(n := None)\<rparr>)"
  using assms by (simp add: settle_def Let_def)

lemma in_flight_fields:
  "in_flight Q (tell line r) = in_flight Q r"
  "in_flight Q (resume k r) = in_flight Q r"
  "sent (tell line r) = sent r"
  "sent (resume k r) = sent r"
  "currentMessage (globals (tell line r)) = currentMessage (globals r)"
  "currentMessage (globals (resume k r)) = currentMessage (globals r)"
  "messageContent (globals (tell line r)) = messageContent (globals r)"
  "messageContent (globals (resume (AfterChunk now) r)) = messageContent (globals r)"
  by (simp_all add: in_flight_def tell_def resume_def console_log_def split: cont.splits)

lemma in_flight_answered:
  "in_flight Q r \<Longrightarrow> in_flight Q (r\<lparr>awaiting := (awaiting r)(n := None)\<rparr>)"
  by (simp add: in_flight_def)

lemma settle_chunk_flush:
  assumes inv: "in_flight chunk_flush r" and a: "\<not> is_rate_limited res"
  shows "in_flight chunk_flush (settle n res r)"
    and "sent (settle n res r) = sent r"
    and "currentMessage (globals (settle n res r)) = currentMessage (globals r)"
    and "messageContent (globals (settle n res r)) = messageContent (globals r)"
proof -
  have "in_flight chunk_flush (settle n res r) \<and> sent (settle n res r) = sent r
    \<and> currentMessage (globals (settle n res r)) = currentMessage (globals r)
    \<and> messageContent (globals (settle n res r)) = messageContent (globals r)"
  proof (cases "awaiting r n")
    case None
    then show ?thesis using inv by (simp add: settle_idle)
  next
    case (Some t)
    with inv have "chunk_flush t" by (simp add: in_flight_def)
    then obtain c now where t: "t = UpdateSent c (AfterChunk now)"
      by (auto simp: chunk_flush_def split: task.splits cont.splits)
    show ?thesis
      using in_flight_answered [OF inv, of n]
      by (simp add: settle_update [OF Some [unfolded t] a] in_flight_fields)
  qed
  then show "in_flight chunk_flush (settle n res r)"
    and "sent (settle n res r) = sent r"
    and "currentMessage (globals (settle n res r)) = currentMessage (globals r)"
    and "messageContent (globals (settle n res r)) = messageContent (globals r)"
    by simp_all
qed

lemma settle_any_flush:
  assumes inv: "in_flight any_flush r" and a: "\<not> is_rate_limited res"
  shows "in_flight any_flush (settle n res r)"
    and "sent (settle n res r) = sent r"
proof -
  have "in_flight any_flush (settle n res r) \<and> sent (settle n res r) = sent r"
  proof (cases "awaiting r n")
    case None
    then show ?thesis using inv by (simp add: settle_idle)
  next
    case (Some t)
    with inv have "any_flush t" by (simp add: in_flight_def)
    then obtain c k where t: "t = UpdateSent c k"
      by (auto simp: any_flush_def split: task.splits)
    show ?thesis
      using in_flight_answered [OF inv, of n]
      by (simp add: settle_update [OF Some [unfolded t] a] in_flight_fields)
  qed
  then show "in_flight any_flush (settle n res r)" and "sent (settle n res r) = sent r"
    by simp_all
qed

lemma chunk_received:
  assumes inv: "in_flight chunk_flush r" and cm: "currentMessage (globals r) = Some m"
    and d: "decodes_chunk JSON_parse d c"
  shows "in_flight chunk_flush (on_message_start JSON_parse d now r)"
    and "currentMessage (globals (on_message_start JSON_parse d now r)) = Some m"
    and "messageContent (globals (on_message_start JSON_parse d now r))
          = messageContent (globals r) @ (if str_includes c marker then [] else c)"
proof -
  from d obtain jm where p: "JSON_parse d = Some jm"
    and ty: "field jm ''type'' = Some (JStr ''stream_chunk'')"
    and co: "field jm ''content'' = Some (JStr c)"
    by (auto simp: decodes_chunk_def split: option.splits)
  from ty have nn: "jm \<noteq> JNull" by (auto simp: field_def)
  have mk: "content_includes_marker (field jm ''content'') = Some (str_includes c marker)"
    using co by (simp add: content_includes_marker_def)
  have tr: "truthy (field jm ''content'') = (c \<noteq> [])"
    "to_string_opt (field jm ''content'') = c"
    using co by (simp_all add: truthy_def to_string_opt_def)
  consider (ack) "str_includes c marker" | (blank) "c = []"
    | (plain) "\<not> str_includes c marker" "c \<noteq> []"
    by blast
  then have "in_flight chunk_flush (on_message_start JSON_parse d now r)
    \<and> currentMessage (globals (on_message_start JSON_parse d now r)) = Some m
    \<and> messageContent (globals (on_message_start JSON_parse d now r))
          = messageContent (globals r) @ (if str_includes c marker then [] else c)"
  proof cases
    case ack
    then have "on_message_start JSON_parse d now r
        = tell ''Received connection confirmation'' r"
      using p nn mk by (simp add: on_message_start_def)
    then show ?thesis using inv cm ack
      by (simp add: tell_def console_log_def in_flight_def)
  next
    case blank
    then have "on_message_start JSON_parse d now r = r"
      using p nn mk tr ty by (simp add: on_message_start_def marker_not_empty)
    then show ?thesis using inv cm blank by (simp add: marker_not_empty)
  next
    case plain
    let ?r1 = "r\<lparr>globals := (globals r)
                 \<lparr>isStreaming := True, messageContent := messageContent (globals r) @ c\<rparr>\<rparr>"
    have hf: "on_message_start JSON_parse d now r =
        (if now - lastUpdateTime (globals ?r1) \<ge> updateInterval
         then updateSlackMessage_start (messageContent (globals ?r1)) (AfterChunk now) ?r1
         else ?r1)"
      using p nn mk tr ty plain by (simp add: on_message_start_def Let_def)
    have inv1: "in_flight chunk_flush ?r1" using inv by (simp add: in_flight_def)
    have st: "updateSlackMessage_start (messageContent (globals ?r1)) (AfterChunk now) ?r1
        = send (ChatUpdate (channel m) (ts m) (Some (messageContent (globals r) @ c)))
            (UpdateSent (messageContent (globals r) @ c) (AfterChunk now)) ?r1"
      using cm plain by (simp add: updateSlackMessage_start_def)
    have "in_flight chunk_flush (send (ChatUpdate (channel m) (ts m)
              (Some (messageContent (globals r) @ c)))
            (UpdateSent (messageContent (globals r) @ c) (AfterChunk now)) ?r1)"
      using inv1 by (auto simp: in_flight_def send_def chunk_flush_def)
    then show ?thesis
      using hf st inv1 cm plain by (auto simp: send_def)
  qed
  then show "in_flight chunk_flush (on_message_start JSON_parse d now r)"
    and "currentMessage (globals (on_message_start JSON_parse d now r)) = Some m"
    and "messageContent (globals (on_message_start JSON_parse d now r))
          = messageContent (globals r) @ (if str_includes c marker then [] else c)"
    by simp_all
qed

lemma frame_texts_simps:
  "frame_texts [] = []"
  "frame_texts (Frame d t # gs) = d # frame_texts gs"
  "frame_texts (Settled n res # gs) = frame_texts gs"
  "frame_texts (Woke n # gs) = frame_texts gs"
  by (simp_all add: frame_texts_def)

lemma no_rate_limit_simps:
  "no_rate_limit []"
  "no_rate_limit (Frame d t # gs) = no_rate_limit gs"
  "no_rate_limit (Settled n res # gs) = (\<not> is_rate_limited res \<and> no_rate_limit gs)"
  "no_rate_limit (Woke n # gs) = no_rate_limit gs"
  "no_rate_limit (gs @ hs) = (no_rate_limit gs \<and> no_rate_limit hs)"
  by (simp_all add: no_rate_limit_def)

lemma chunks_played:
  "in_flight chunk_flush r \<Longrightarrow> currentMessage (globals r) = Some m \<Longrightarrow>
   list_all2 (decodes_chunk JSON_parse) (frame_texts pre) cs \<Longrightarrow> no_rate_limit pre \<Longrightarrow>
     in_flight chunk_flush (play JSON_parse pre r)
     \<and> currentMessage (globals (play JSON_parse pre r)) = Some m
     \<and> messageContent (globals (play JSON_parse pre r))
         = messageContent (globals r) @ concat (accepted cs)"
proof (induction pre arbitrary: r cs)
  case Nil
  then show ?case by (simp add: frame_texts_simps accepted_def)
next
  case (Cons g pre)
  show ?case
  proof (cases g)
    case (Frame d t)
    from Cons.prems(3) obtain c cs' where cs: "cs = c # cs'"
      and dc: "decodes_chunk JSON_parse d c"
      and rest: "list_all2 (decodes_chunk JSON_parse) (frame_texts pre) cs'"
      by (auto simp: Frame frame_texts_simps list_all2_Cons1)
    let ?r1 = "on_message_start JSON_parse d t r"
    note h = chunk_received [OF Cons.prems(1) Cons.prems(2) dc, of t]
    from Cons.prems(4) have calm: "no_rate_limit pre" by (simp add: Frame no_rate_limit_simps)
    from Cons.IH [OF h(1) h(2) rest calm] h(3)
    show ?thesis by (simp add: Frame react_def cs accepted_def)
  next
    case (Settled n res)
    from Cons.prems(4) have a: "\<not> is_rate_limited res" and calm: "no_rate_limit pre"
      by (simp_all add: Settled no_rate_limit_simps)
    note h = settle_chunk_flush [OF Cons.prems(1) a, of n]
    from Cons.prems(3) have rest: "list_all2 (decodes_chunk JSON_parse) (frame_texts pre) cs"
      by (simp add: Settled frame_texts_simps)
    from Cons.IH [OF h(1) _ rest calm] h(3) h(4) Cons.prems(2)
    show ?thesis by (simp add: Settled react_def)
  next
    case (Woke n)
    from Cons.prems(4) have calm: "no_rate_limit pre" by (simp add: Woke no_rate_limit_simps)
    from Cons.prems(3) have rest: "list_all2 (decodes_chunk JSON_parse) (frame_texts pre) cs"
      by (simp add: Woke frame_texts_simps)
    from Cons.IH [OF Cons.prems(1) Cons.prems(2) rest calm]
    show ?thesis by (simp add: Woke react_def wake_in_flight [OF Cons.prems(1)])
  qed
qed

lemma complete_received:
  assumes inv: "in_flight chunk_flush r" and cm: "currentMessage (globals r) = Some m"
    and d: "decodes_complete JSON_parse d" and buf: "messageContent (globals r) \<noteq> []"
  shows "in_flight any_flush (on_message_start JSON_parse d now r)"
    and "sent (on_message_start JSON_parse d now r)
          = sent r @ [ChatUpdate (channel m) (ts m) (Some (messageContent (globals r)))]"
proof -
  from d obtain jm where p: "JSON_parse d = Some jm"
    and ty: "field jm ''type'' = Some (JStr ''stream_complete'')"
    and mk: "content_includes_marker (field jm ''content'') = Some False"
    by (auto simp: decodes_complete_def split: option.splits)
  from ty have nn: "jm \<noteq> JNull" by (auto simp: field_def)
  let ?r1 = "r\<lparr>globals := (console_log ''Stream completed'' (globals r))\<lparr>isStreaming := False\<rparr>\<rparr>"
  have "on_message_start JSON_parse d now r
      = updateSlackMessage_start (messageContent (globals r)) AfterComplete ?r1"
    using p nn mk ty buf by (simp add: on_message_start_def Let_def console_log_def)
  also have "\<dots> = send (ChatUpdate (channel m) (ts m) (Some (messageContent (globals r))))
            (UpdateSent (messageContent (globals r)) AfterComplete) ?r1"
    using cm buf by (simp add: updateSlackMessage_start_def console_log_def)
  finally have eq: "on_message_start JSON_parse d now r
      = send (ChatUpdate (channel m) (ts m) (Some (messageContent (globals r))))
            (UpdateSent (messageContent (globals r)) AfterComplete) ?r1" .
  from inv have "in_flight any_flush ?r1"
    by (auto simp: in_flight_def chunk_flush_any)
  then show "in_flight any_flush (on_message_start JSON_parse d now r)"
    unfolding eq by (auto simp: in_flight_def send_def any_flush_def)
  show "sent (on_message_start JSON_parse d now r)
          = sent r @ [ChatUpdate (channel m) (ts m) (Some (messageContent (globals r)))]"
    unfolding eq by (simp add: send_def)
qed

lemma answers_played:
  "in_flight any_flush r \<Longrightarrow> frame_texts post = [] \<Longrightarrow> no_rate_limit post \<Longrightarrow>
     sent (play JSON_parse post r) = sent r"
proof (induction post arbitrary: r)
  case Nil
  then show ?case by simp
next
  case (Cons g post)
  show ?case
  proof (cases g)
    case (Frame d t)
    with Cons.prems(2) show ?thesis by (simp add: frame_texts_simps)
  next
    case (Settled n res)
    from Cons.prems(3) have a: "\<not> is_rate_limited res" and calm: "no_rate_limit post"
      by (simp_all add: Settled no_rate_limit_simps)
    note h = settle_any_flush [OF Cons.prems(1) a, of n]
    from Cons.prems(2) have "frame_texts post = []" by (simp add: Settled frame_texts_simps)
    from Cons.IH [OF h(1) this calm] h(2) show ?thesis by (simp add: Settled react_def)
  next
    case (Woke n)
    from Cons.prems(3) have calm: "no_rate_limit post" by (simp add: Woke no_rate_limit_simps)
    from Cons.prems(2) have "frame_texts post = []" by (simp add: Woke frame_texts_simps)
    from Cons.IH [OF Cons.prems(1) this calm]
    show ?thesis by (simp add: Woke react_def wake_in_flight [OF Cons.prems(1)])
  qed
qed

lemma play_append: "play J (gs @ hs) r = play J hs (play J gs r)"
  by (induction gs arbitrary: r) auto

text \<open>
  Claim C1, as the code has it. A turn has its target message and an empty buffer, and no
  call or delay is pending. The chunk frames \<open>c1 .. cn\<close> arrive at any times, then a
  \<open>stream_complete\<close> frame that passes the marker check; the answers of the platform come
  at any points between and after the frames, and none of them is a rate limit. A chunk
  whose content contains the connection marker is dropped by the check that comes first.
  If the contents that remain are not all empty, the last call the relay sends is the
  update of the target message with their concatenation, whatever flushes came before and
  whenever they were answered.
\<close>

theorem stream_final_text:
  assumes "awaiting r = Map.empty" and "delayed r = Map.empty"
    and "currentMessage (globals r) = Some m" and "messageContent (globals r) = []"
    and "list_all2 (decodes_chunk JSON_parse) (frame_texts pre) cs"
    and "decodes_complete JSON_parse d"
    and "frame_texts post = []"
    and "no_rate_limit (pre @ post)"
    and "concat (accepted cs) \<noteq> []"
  shows "sent (play JSON_parse (pre @ Frame d t # post) r) \<noteq> []
     \<and> last (sent (play JSON_parse (pre @ Frame d t # post) r))
         = ChatUpdate (channel m) (ts m) (Some (concat (accepted cs)))"
proof -
  from assms(8) have calm: "no_rate_limit pre" "no_rate_limit post"
    by (simp_all add: no_rate_limit_simps)
  let ?r1 = "play JSON_parse pre r"
  from chunks_played [OF quiet_in_flight [OF assms(1) assms(2)] assms(3) assms(5) calm(1)]
  have inv1: "in_flight chunk_flush ?r1" and cm1: "currentMessage (globals ?r1) = Some m"
    and b1: "messageContent (globals ?r1) = concat (accepted cs)"
    using assms(4) by simp_all
  from b1 assms(9) have ne: "messageContent (globals ?r1) \<noteq> []" by simp
  let ?r2 = "on_message_start JSON_parse d t ?r1"
  note h = complete_received [OF inv1 cm1 assms(6) ne, of t]
  have "sent (play JSON_parse post ?r2) = sent ?r2"
    by (rule answers_played [OF h(1) assms(7) calm(2)])
  moreover have "play JSON_parse (pre @ Frame d t # post) r = play JSON_parse post ?r2"
    by (simp add: play_append react_def)
  ultimately have "sent (play JSON_parse (pre @ Frame d t # post) r)
      = sent ?r1 @ [ChatUpdate (channel m) (ts m) (Some (concat (accepted cs)))]"
    using h(2) b1 by simp
  then show ?thesis by simp
qed


lemma sample_decodes:
  "decodes_chunk sample_parse text_hello ''Hello ''"
  "decodes_chunk sample_parse text_world '' world''"
  "decodes_chunk sample_parse text_greeting ''Connected to ANA Multi-Agent''"
  "decodes_complete sample_parse text_complete"
  by (simp_all add: decodes_chunk_def decodes_complete_def sample_parse_simps chunk_frame_fields
      complete_frame_fields content_includes_marker_def)

theorem stream_final_text_witness:
  "awaiting (quiet turn_started) = Map.empty \<and> delayed (quiet turn_started) = Map.empty
   \<and> currentMessage (globals (quiet turn_started)) = Some placeholder
   \<and> messageContent (globals (quiet turn_started)) = []
   \<and> list_all2 (decodes_chunk sample_parse)
        (frame_texts [Frame text_hello 1700000000000, Frame text_world 1700000000100,
           Settled 0 (Resolved True), Settled 1 (Resolved True)])
        [''Hello '', '' world'']
   \<and> decodes_complete sample_parse text_complete
   \<and> frame_texts [Settled 2 (Resolved True)] = []
   \<and> no_rate_limit ([Frame text_hello 1700000000000, Frame text_world 1700000000100,
           Settled 0 (Resolved True), Settled 1 (Resolved True)] @ [Settled 2 (Resolved True)])
   \<and> concat (accepted [''Hello '', '' world'']) = ''Hello  world''
   \<and> last (sent (play sample_parse
          ([Frame text_hello 1700000000000, Frame text_world 1700000000100,
            Settled 0 (Resolved True), Settled 1 (Resolved True)]
           @ Frame text_complete 1700000000600 # [Settled 2 (Resolved True)])
          (quiet turn_started)))
       = ChatUpdate (channel placeholder) (ts placeholder) (Some ''Hello  world'')"
proof -
  let ?pre = "[Frame text_hello 1700000000000, Frame text_world 1700000000100,
           Settled 0 (Resolved True), Settled 1 (Resolved True)]"
  let ?post = "[Settled 2 (Resolved True)]"
  have a: "concat (accepted [''Hello '', '' world'']) = ''Hello  world''"
    by (simp add: accepted_def marker_def)
  have ne: "concat (accepted [''Hello '', '' world'']) \<noteq> []" by (simp add: a)
  have ch: "list_all2 (decodes_chunk sample_parse) (frame_texts ?pre) [''Hello '', '' world'']"
    by (simp add: frame_texts_simps sample_decodes)
  have po: "frame_texts ?post = []" by (simp add: frame_texts_simps)
  have calm: "no_rate_limit (?pre @ ?post)"
    by (simp add: no_rate_limit_simps is_rate_limited_def)
  have cm: "currentMessage (globals (quiet turn_started)) = Some placeholder"
    "messageContent (globals (quiet turn_started)) = []"
    by (simp_all add: quiet_simps turn_started_simps)
  from stream_final_text [where r = "quiet turn_started" and m = placeholder
      and JSON_parse = sample_parse and pre = ?pre and post = ?post and d = text_complete
      and t = 1700000000600 and cs = "[''Hello '', '' world'']",
      OF quiet_simps(4) quiet_simps(5) cm ch sample_decodes(4) po calm ne]
  show ?thesis using a ch po calm cm by (simp add: quiet_simps sample_decodes)
qed

lemmas machine_defs = react_def on_message_start_def settle_def wake_def send_def resume_def
  tell_def updateSlackMessage_start_def quiet_def

text \<open>
  Claim C1 as stated promises the concatenation of all chunks. With the chunks \<open>Hello \<close>
  and a second one that holds the marker, the last update carries \<open>Hello \<close> alone. And
  when the first flush is answered with a rate limit, \<open>updateSlackMessage\<close> sends the
  content it was given once more after its delay: with the chunks \<open>Hello \<close> and
  \<open> world\<close> the last update sent is again \<open>Hello \<close>.
\<close>

theorem stream_final_text_counterexample:
  "sent (play sample_parse
           [Frame text_hello 1700000000000, Settled 0 (Resolved True),
            Frame text_greeting 1700000000100, Frame text_complete 1700000000600,
            Settled 1 (Resolved True)] (quiet turn_started))
     = [ChatUpdate (channel placeholder) (ts placeholder) (Some ''Hello ''),
        ChatUpdate (channel placeholder) (ts placeholder) (Some ''Hello '')]
   \<and> ''Hello '' \<noteq> concat [''Hello '', ''Connected to ANA Multi-Agent'']
   \<and> sent (play sample_parse
           [Frame text_hello 1700000000000, Settled 0 (Rejected ''rate_limited'' (Some 1)),
            Frame text_world 1700000000100, Frame text_complete 1700000000600,
            Settled 1 (Resolved True), Settled 2 (Resolved True), Woke 0] (quiet turn_started))
     = [ChatUpdate (channel placeholder) (ts placeholder) (Some ''Hello ''),
        ChatUpdate (channel placeholder) (ts placeholder) (Some ''Hello  world''),
        ChatUpdate (channel placeholder) (ts placeholder) (Some ''Hello  world''),
        ChatUpdate (channel placeholder) (ts placeholder) (Some ''Hello '')]
   \<and> ''Hello '' \<noteq> concat [''Hello '', '' world'']"
  by (simp add: machine_defs sample_parse_simps chunk_frame_fields complete_frame_fields
      content_includes_marker_def marker_def truthy_def to_string_opt_def turn_started_simps
      updateInterval_def Let_def console_log_def is_rejected_def is_rate_limited_def
      retry_after_def)








section \<open>Complete responses\<close>

lemma split_lines_nonempty: "split_lines s \<noteq> []"
  by (induction s) (auto split: list.splits)

lemma split_lines_plain: "CHR 0x0A \<notin> set xs \<Longrightarrow> split_lines xs = [xs]"
  by (induction xs) auto

lemma split_lines_at_newline:
  "CHR 0x0A \<notin> set xs \<Longrightarrow> split_lines (xs @ CHR 0x0A # ys) = xs # split_lines ys"
  by (induction xs) auto

lemma join_split_lines: "join [CHR 0x0A] (split_lines s) = s"
proof (induction s)
  case Nil
  then show ?case by simp
next
  case (Cons c s)
  obtain l ls where sl: "split_lines s = l # ls"
    using split_lines_nonempty [of s] by (cases "split_lines s") auto
  show ?case
  proof (cases "c = CHR 0x0A")
    case True
    then show ?thesis using Cons.IH sl by simp
  next
    case False
    then show ?thesis using Cons.IH sl by (cases ls) auto
  qed
qed

lemma trim_id:
  assumes "s \<noteq> []" "\<not> is_space (hd s)" "\<not> is_space (last s)"
  shows "trim s = s"
proof -
  from assms(1,2) have a: "dropWhile is_space s = s" by (cases s) auto
  from assms(1,3) have "dropWhile is_space (rev s) = rev s"
    by (cases "rev s") (auto simp: last_rev [symmetric])
  with a show ?thesis by (simp add: trim_def)
qed

lemma long_first_line_lines:
  "split_lines long_first_line = [replicate 3000 (CHR ''a''), ''b'']"
  by (simp add: long_first_line_def split_lines_at_newline)

lemma is_space_ab: "\<not> is_space (CHR ''a'')" "\<not> is_space (CHR ''b'')"
  by (simp_all add: is_space_def)

text \<open>The size bound of the chunks does hold when every line is within the limit.\<close>

lemma split_step_bounded:
  assumes "length line \<le> MAX_LENGTH" "length (snd acc) \<le> MAX_LENGTH"
    "list_all (\<lambda>c. length c \<le> MAX_LENGTH) (fst acc)"
  shows "length (snd (split_step acc line)) \<le> MAX_LENGTH
     \<and> list_all (\<lambda>c. length c \<le> MAX_LENGTH) (fst (split_step acc line))"
  using assms by (cases acc) (auto simp: split_step_def)

lemma foldl_split_step_bounded:
  "list_all (\<lambda>l. length l \<le> MAX_LENGTH) ls \<Longrightarrow> length (snd acc) \<le> MAX_LENGTH \<Longrightarrow>
   list_all (\<lambda>c. length c \<le> MAX_LENGTH) (fst acc) \<Longrightarrow>
     length (snd (foldl split_step acc ls)) \<le> MAX_LENGTH
     \<and> list_all (\<lambda>c. length c \<le> MAX_LENGTH) (fst (foldl split_step acc ls))"
proof (induction ls arbitrary: acc)
  case Nil
  then show ?case by simp
next
  case (Cons l ls)
  from Cons.prems have "length l \<le> MAX_LENGTH" "list_all (\<lambda>l. length l \<le> MAX_LENGTH) ls"
    by simp_all
  with split_step_bounded [of l acc] Cons.prems(2,3) Cons.IH [of "split_step acc l"]
  show ?case by simp
qed

lemma split_chunks_bounded:
  assumes "list_all (\<lambda>l. length l \<le> MAX_LENGTH) (split_lines content)"
  shows "list_all (\<lambda>c. length c \<le> MAX_LENGTH) (split_chunks content)"
proof -
  have "length (snd (foldl split_step ([], []) (split_lines content))) \<le> MAX_LENGTH
     \<and> list_all (\<lambda>c. length c \<le> MAX_LENGTH) (fst (foldl split_step ([], []) (split_lines content)))"
    using foldl_split_step_bounded [OF assms, of "([], [])"] by simp
  then show ?thesis
    by (simp add: split_chunks_def split_beta)
qed

text \<open>
  So does the round trip when every line is non-empty and shorter than the limit: the
  chunks joined with newlines are the content.
\<close>

lemma join_snoc: "xs \<noteq> [] \<Longrightarrow> join sep (xs @ [y]) = join sep xs @ sep @ y"
  by (induction sep xs rule: join.induct) auto

lemma join_Cons: "join sep (x # xs) = x @ concat (map (\<lambda>l. sep @ l) xs)"
  by (induction xs arbitrary: x) auto

lemma foldl_split_step_joined:
  "list_all (\<lambda>l. l \<noteq> [] \<and> length l < MAX_LENGTH) ls \<Longrightarrow> snd acc \<noteq> [] \<Longrightarrow>
     snd (foldl split_step acc ls) \<noteq> []
     \<and> join [CHR 0x0A] (fst (foldl split_step acc ls) @ [snd (foldl split_step acc ls)])
         = join [CHR 0x0A] (fst acc @ [snd acc]) @ concat (map (\<lambda>l. [CHR 0x0A] @ l) ls)"
proof (induction ls arbitrary: acc)
  case Nil
  then show ?case by simp
next
  case (Cons l ls)
  obtain chunks cur where acc: "acc = (chunks, cur)" by (cases acc)
  from Cons.prems have l: "l \<noteq> []" and rest: "list_all (\<lambda>l. l \<noteq> [] \<and> length l < MAX_LENGTH) ls"
    and cur: "cur \<noteq> []"
    by (simp_all add: acc)
  let ?a = "split_step acc l"
  have ne: "snd ?a \<noteq> []" using l cur by (simp add: acc split_step_def)
  have j: "join [CHR 0x0A] (fst ?a @ [snd ?a])
      = join [CHR 0x0A] (fst acc @ [snd acc]) @ [CHR 0x0A] @ l"
  proof (cases "length cur + length l + 1 > MAX_LENGTH")
    case True
    then have "?a = (chunks @ [cur], l)" by (simp add: acc split_step_def)
    then show ?thesis using join_snoc [of "chunks @ [cur]" "[CHR 0x0A]" l] by (simp add: acc)
  next
    case False
    then have a: "?a = (chunks, cur @ [CHR 0x0A] @ l)" using cur by (simp add: acc split_step_def)
    show ?thesis
    proof (cases "chunks = []")
      case True
      then show ?thesis using a by (simp add: acc)
    next
      case False
      then show ?thesis
        using a join_snoc [of chunks "[CHR 0x0A]" cur]
          join_snoc [of chunks "[CHR 0x0A]" "cur @ [CHR 0x0A] @ l"]
        by (simp add: acc)
    qed
  qed
  from Cons.IH [OF rest ne] j show ?case by simp
qed

lemma split_chunks_roundtrip:
  assumes "list_all (\<lambda>l. l \<noteq> [] \<and> length l < MAX_LENGTH) (split_lines content)"
  shows "join [CHR 0x0A] (split_chunks content) = content"
proof -
  obtain l ls where sl: "split_lines content = l # ls"
    using split_lines_nonempty [of content] by (cases "split_lines content") auto
  from assms sl have l: "l \<noteq> []" "length l < MAX_LENGTH"
    and rest: "list_all (\<lambda>l. l \<noteq> [] \<and> length l < MAX_LENGTH) ls"
    by simp_all
  have first: "split_step ([], []) l = ([], l)"
    using l by (simp add: split_step_def)
  let ?r = "foldl split_step ([], l) ls"
  from foldl_split_step_joined [OF rest, of "([], l)"] l(1)
  have ne: "snd ?r \<noteq> []"
    and j: "join [CHR 0x0A] (fst ?r @ [snd ?r]) = l @ concat (map (\<lambda>l. [CHR 0x0A] @ l) ls)"
    by simp_all
  have "split_chunks content = fst ?r @ [snd ?r]"
    using ne by (simp add: split_chunks_def sl first split_beta)
  then have "join [CHR 0x0A] (split_chunks content) = join [CHR 0x0A] (l # ls)"
    using j by (simp add: join_Cons)
  then show ?thesis using join_split_lines [of content] sl by simp
qed

text \<open>
  Claim C2. The claim does not hold of the loop. A first line of exactly 3000 characters
  is pushed behind an empty first chunk, since the test counts one separator for the empty
  \<open>currentChunk\<close>; and a blank line that follows a chunk of 3000 characters starts a
  chunk that the next line overwrites, since the empty \<open>currentChunk\<close> counts as absent.
  In both cases the chunks joined with newlines differ from the content.
\<close>

theorem split_chunks_loses_text:
  "trim long_first_line = long_first_line
   \<and> length long_first_line = 3002
   \<and> split_lines long_first_line = [replicate 3000 (CHR ''a''), ''b'']
   \<and> split_chunks long_first_line = [[], replicate 3000 (CHR ''a''), ''b'']
   \<and> join [CHR 0x0A] (split_chunks long_first_line) \<noteq> long_first_line
   \<and> trim blank_after_full = blank_after_full
   \<and> length blank_after_full = 3003
   \<and> split_lines blank_after_full
       = [replicate 1500 (CHR ''a''), replicate 1499 (CHR ''a''), [], ''b'']
   \<and> split_chunks blank_after_full
       = [replicate 1500 (CHR ''a'') @ [CHR 0x0A] @ replicate 1499 (CHR ''a''), ''b'']
   \<and> join [CHR 0x0A] (split_chunks blank_after_full) \<noteq> blank_after_full"
proof -
  have t1: "trim long_first_line = long_first_line"
    by (rule trim_id) (simp_all add: long_first_line_def is_space_ab hd_append)
  have n1: "length long_first_line = 3002" by (simp add: long_first_line_def)
  have c1: "split_chunks long_first_line = [[], replicate 3000 (CHR ''a''), ''b'']"
    by (simp add: split_chunks_def long_first_line_lines split_step_def MAX_LENGTH_def)
  have "length (join [CHR 0x0A] (split_chunks long_first_line)) = 3003"
    by (simp add: c1)
  with n1 have j1: "join [CHR 0x0A] (split_chunks long_first_line) \<noteq> long_first_line"
    by auto
  have t2: "trim blank_after_full = blank_after_full"
    by (rule trim_id) (simp_all add: blank_after_full_def is_space_ab hd_append)
  have n2: "length blank_after_full = 3003" by (simp add: blank_after_full_def)
  have l2: "split_lines blank_after_full
       = [replicate 1500 (CHR ''a''), replicate 1499 (CHR ''a''), [], ''b'']"
    by (simp add: blank_after_full_def split_lines_at_newline)
  have c2: "split_chunks blank_after_full
       = [replicate 1500 (CHR ''a'') @ [CHR 0x0A] @ replicate 1499 (CHR ''a''), ''b'']"
    by (simp add: split_chunks_def l2 split_step_def MAX_LENGTH_def)
  have "length (join [CHR 0x0A] (split_chunks blank_after_full)) = 3002"
    by (simp add: c2)
  with n2 have j2: "join [CHR 0x0A] (split_chunks blank_after_full) \<noteq> blank_after_full"
    by auto
  from t1 n1 long_first_line_lines c1 j1 t2 n2 l2 c2 j2 show ?thesis by blast
qed


lemma str_includes_set: "str_includes c n \<Longrightarrow> set n \<subseteq> set c"
  by (auto simp: str_includes_iff)

lemma two_lines_no_marker: "\<not> str_includes two_lines marker"
proof
  assume "str_includes two_lines marker"
  then have "set marker \<subseteq> set two_lines" by (rule str_includes_set)
  moreover have "CHR ''C'' \<in> set marker" by (simp add: marker_def)
  ultimately have "CHR ''C'' \<in> set two_lines" by blast
  then show False by (simp add: two_lines_def)
qed

lemma two_lines_trim: "trim two_lines = two_lines"
  by (rule trim_id) (simp_all add: two_lines_def is_space_ab hd_append)

lemma two_lines_chunks:
  "split_chunks two_lines = [replicate 2000 (CHR ''a''), replicate 2000 (CHR ''b'')]"
proof -
  have "split_lines two_lines = [replicate 2000 (CHR ''a''), replicate 2000 (CHR ''b'')]"
    by (simp add: two_lines_def split_lines_at_newline split_lines_plain)
  then show ?thesis
    by (simp add: split_chunks_def split_step_def MAX_LENGTH_def)
qed

lemma two_lines_length: "length two_lines = 4001" "two_lines \<noteq> []"
  by (auto simp: two_lines_def)

lemma response_frame_dispatch:
  assumes "\<not> isStreaming s"
  shows "handle_frame P (response_frame two_lines) now s
     = Some (handleChatResponse P (response_frame two_lines) (currentMessage s) s)"
  using assms two_lines_no_marker two_lines_length(2)
  by (simp add: handle_frame_def response_frame_def field_def content_includes_marker_def
      truthy_def)

lemma waits_append: "waits (xs @ ys) = waits xs @ waits ys"
  by (simp add: waits_def)

lemma waits_simps:
  "waits [] = []" "waits [Call c r] = []" "waits [Sleep d] = [d]"
  by (simp_all add: waits_def)

lemma api_waits: "waits (effects (snd (api P c s))) = waits (effects s)"
  by (simp add: api_def Let_def emit_def waits_append waits_simps)

lemma post_chunks_waits:
  "waits (effects (snd (post_chunks P m i cs s))) = waits (effects s)"
proof (induction cs arbitrary: i s)
  case Nil
  then show ?case by simp
next
  case (Cons c cs)
  show ?case
    by (simp add: api_def Let_def emit_def console_log_def Cons.IH waits_append waits_simps)
qed

lemma handleChatResponse_never_waits:
  "waits (effects (handleChatResponse P jm cm s)) = waits (effects s)"
proof -
  have pc: "waits (effects (case post_chunks P m i cs s0 of (posted, s4) \<Rightarrow> F posted s4))
      = waits (effects s0)"
    if "\<And>b s4. waits (effects (F b s4)) = waits (effects s4)"
    for F :: "bool \<Rightarrow> state \<Rightarrow> state" and m i cs s0
    using that post_chunks_waits [of P m i cs s0]
    by (simp add: split_beta)
  show ?thesis
    unfolding handleChatResponse_def
    by (simp add: api_def Let_def emit_def console_log_def pc waits_append waits_simps
        split: option.splits json.splits)
qed

text \<open>
  Claim C4. The claim does not hold of \<open>handleChatResponse\<close>. With a response of two
  chunks, a rate limit on the first-chunk update ends the handler after that one call, the
  second chunk never being posted; a rate limit on the post of the second chunk ends it
  after that call. Neither is followed by a wait or a retry, and no response on any platform makes
  \<open>handleChatResponse\<close> wait. \<open>updateSlackMessage\<close>, given the same answer, waits
  one second and repeats its call.
\<close>

theorem chat_response_rate_limit_not_retried:
  "(\<forall>P jm cm s. waits (effects (handleChatResponse P jm cm s)) = waits (effects s))
   \<and> map_option effects
     (handle_frame (rate_limited_at 0) (response_frame two_lines) 1700000000000 turn_started)
   = Some (effects turn_started
       @ [Call (ChatUpdate (channel placeholder) (ts placeholder)
                  (Some (replicate 2000 (CHR ''a'')))) (Rejected ''rate_limited'' (Some 1))])
   \<and> map_option effects
     (handle_frame (rate_limited_at 1) (response_frame two_lines) 1700000000000 turn_started)
   = Some (effects turn_started
       @ [Call (ChatUpdate (channel placeholder) (ts placeholder)
                  (Some (replicate 2000 (CHR ''a'')))) (Resolved True),
          Call (ChatPostMessage (channel placeholder) (ts placeholder)
                  (Some (replicate 2000 (CHR ''b'')))) (Rejected ''rate_limited'' (Some 1))])
   \<and> map_option effects (updateSlackMessage (rate_limited_at 0) two_lines turn_started)
   = Some (effects turn_started
       @ [Call (ChatUpdate (channel placeholder) (ts placeholder) (Some two_lines))
            (Rejected ''rate_limited'' (Some 1)),
          Sleep 1000,
          Call (ChatUpdate (channel placeholder) (ts placeholder) (Some two_lines))
            (Resolved True)])"
proof -
  have ns: "\<not> isStreaming turn_started" by (simp add: turn_started_simps)
  have hcr: "\<And>P. effects (handleChatResponse P (response_frame two_lines) (Some placeholder)
        turn_started)
      = (let r = P 0;
             e1 = effects turn_started
               @ [Call (ChatUpdate (channel placeholder) (ts placeholder)
                     (Some (replicate 2000 (CHR ''a'')))) r]
         in if is_rejected r then e1
            else e1 @ [Call (ChatPostMessage (channel placeholder) (ts placeholder)
                     (Some (replicate 2000 (CHR ''b'')))) (P 1)])"
    by (simp add: handleChatResponse_def response_frame_def field_def two_lines_trim
        two_lines_length two_lines_chunks MAX_LENGTH_def Let_def api_def emit_def console_log_def
        turn_started_simps)
  have a: "map_option effects
     (handle_frame (rate_limited_at 0) (response_frame two_lines) 1700000000000 turn_started)
   = Some (effects turn_started
       @ [Call (ChatUpdate (channel placeholder) (ts placeholder)
                  (Some (replicate 2000 (CHR ''a'')))) (Rejected ''rate_limited'' (Some 1))])"
    by (simp add: response_frame_dispatch [OF ns] turn_started_simps(1) hcr Let_def
        rate_limited_at_def is_rejected_def)
  have b: "map_option effects
     (handle_frame (rate_limited_at 1) (response_frame two_lines) 1700000000000 turn_started)
   = Some (effects turn_started
       @ [Call (ChatUpdate (channel placeholder) (ts placeholder)
                  (Some (replicate 2000 (CHR ''a'')))) (Resolved True),
          Call (ChatPostMessage (channel placeholder) (ts placeholder)
                  (Some (replicate 2000 (CHR ''b'')))) (Rejected ''rate_limited'' (Some 1))])"
    by (simp add: response_frame_dispatch [OF ns] turn_started_simps(1) hcr Let_def
        rate_limited_at_def is_rejected_def)
  let ?s1 = "emit (Sleep (retry_after (rate_limited_at 0 (api_calls turn_started)) * 1000))
            (snd (api (rate_limited_at 0)
               (ChatUpdate (channel placeholder) (ts placeholder) (Some two_lines)) turn_started))"
  have rl: "is_rate_limited (rate_limited_at 0 (api_calls turn_started))"
    by (simp add: rate_limited_at_def is_rate_limited_def turn_started_simps)
  have "updateSlackMessage (rate_limited_at 0) two_lines turn_started
      = updateSlackMessage (rate_limited_at 0) two_lines ?s1"
    using upd_retry [of turn_started placeholder two_lines "rate_limited_at 0"] rl
    by (simp add: turn_started_simps two_lines_length)
  moreover have "currentMessage ?s1 = Some placeholder"
    "\<not> is_rate_limited (rate_limited_at 0 (api_calls ?s1))"
    by (simp_all add: api_def emit_def Let_def turn_started_simps rate_limited_at_def
        is_rate_limited_def)
  then have "updateSlackMessage (rate_limited_at 0) two_lines ?s1
      = Some (let s1 = snd (api (rate_limited_at 0)
                 (ChatUpdate (channel placeholder) (ts placeholder) (Some two_lines)) ?s1)
              in if is_rejected (rate_limited_at 0 (api_calls ?s1))
                 then console_log ''Error updating message:'' s1 else s1)"
    using upd_answered [of ?s1 placeholder two_lines "rate_limited_at 0"]
    by (simp add: two_lines_length)
  ultimately have c: "map_option effects
       (updateSlackMessage (rate_limited_at 0) two_lines turn_started)
   = Some (effects turn_started
       @ [Call (ChatUpdate (channel placeholder) (ts placeholder) (Some two_lines))
            (Rejected ''rate_limited'' (Some 1)),
          Sleep 1000,
          Call (ChatUpdate (channel placeholder) (ts placeholder) (Some two_lines))
            (Resolved True)])"
    by (simp add: api_def emit_def Let_def turn_started_simps rate_limited_at_def
        is_rejected_def retry_after_def)
  from a b c handleChatResponse_never_waits show ?thesis by blast
qed

end
